theory Spec2Isabelle
  imports Complex_Main
begin

section \<open>Data model\<close>

text \<open>
  The rows of the relational store, with the columns the order and point controllers read
  or write. Integer columns are unbounded \<open>int\<close>. The store holds them in 32-bit
  columns and rejects a statement whose value leaves that range; on values within it
  JavaScript's number arithmetic (\<open>*\<close>, \<open>+\<close>, \<open>Math.floor(x / 1000)\<close>) is exact and
  agrees with \<open>int\<close>. A run of the model with a value outside the range has no
  counterpart in the program.
\<close>

datatype Role = ADMIN | USER

record JwtUser =
  jwt_id :: int
  jwt_role :: Role

record Product =
  p_id :: int
  p_name :: string
  p_price :: int
  p_stock :: int
  p_deletedAt :: "nat option"

record Order =
  o_id :: int
  o_userId :: int
  o_totalPrice :: int
  o_createdAt :: nat

record OrderItem =
  oi_id :: int
  oi_orderId :: int
  oi_productId :: int
  oi_quantity :: int
  oi_unitPrice :: int
  oi_totalPrice :: int

record User =
  u_id :: int
  u_point :: int

text \<open>The store: one list of rows per table, and the clock that stamps new rows.\<close>

record Store =
  products :: "Product list"
  orders :: "Order list"
  orderItems :: "OrderItem list"
  users :: "User list"
  now :: nat

text \<open>
  \<open>AppError status message\<close> is the controllers' own error; \<open>RecordNotFound\<close> is the
  client's error for an update whose \<open>where\<close> matches no row; \<open>TypeError\<close> is a property
  read on \<open>undefined\<close>.
\<close>

datatype error = AppError nat string | RecordNotFound | TypeError

section \<open>Request values and validation schemas\<close>

text \<open>A field of a parsed JSON body. A number is the exact value of the parsed double.\<close>

datatype jsval = JUndefined | JNull | JBool bool | JNumber rat | JString string

text \<open>
  \<open>z.number().int().positive()\<close>: a number that is an integer in the safe range and
  greater than zero.
\<close>

definition zIntPositive :: "jsval \<Rightarrow> int option" where
  "zIntPositive v =
     (case v of
        JNumber r \<Rightarrow>
          if of_int \<lfloor>r\<rfloor> = r \<and> \<bar>r\<bar> \<le> 9007199254740991 \<and> 0 < r then Some \<lfloor>r\<rfloor> else None
      | _ \<Rightarrow> None)"

record Item =
  productId :: int
  quantity :: int

record RawItem =
  raw_productId :: jsval
  raw_quantity :: jsval

text \<open>One element of \<open>orderSchema.items\<close>; \<open>quantity\<close> has \<open>.default(1)\<close>.\<close>

definition orderItemSchema :: "RawItem \<Rightarrow> Item option" where
  "orderItemSchema raw =
     (case zIntPositive (raw_productId raw) of
        None \<Rightarrow> None
      | Some pid \<Rightarrow>
          (case (if raw_quantity raw = JUndefined then Some 1
                 else zIntPositive (raw_quantity raw)) of
             None \<Rightarrow> None
           | Some q \<Rightarrow> Some \<lparr>productId = pid, quantity = q\<rparr>))"

fun parseItems :: "RawItem list \<Rightarrow> Item list option" where
  "parseItems [] = Some []"
| "parseItems (raw # rest) =
     (case orderItemSchema raw of
        None \<Rightarrow> None
      | Some item \<Rightarrow> (case parseItems rest of None \<Rightarrow> None | Some items \<Rightarrow> Some (item # items)))"

text \<open>
  \<open>orderSchema.safeParse\<close>: the body's \<open>items\<close> is \<open>None\<close> when it is not an array;
  the array must be non-empty and every element must parse.
\<close>

definition orderSchema :: "RawItem list option \<Rightarrow> Item list option" where
  "orderSchema body =
     (case body of
        None \<Rightarrow> None
      | Some raws \<Rightarrow> if raws = [] then None else parseItems raws)"

record TransferBody =
  raw_receiverId :: jsval
  raw_amount :: jsval

record Transfer =
  receiverId :: int
  amount :: int

definition transferPointSchema :: "TransferBody \<Rightarrow> Transfer option" where
  "transferPointSchema body =
     (case zIntPositive (raw_receiverId body) of
        None \<Rightarrow> None
      | Some rid \<Rightarrow>
          (case zIntPositive (raw_amount body) of
             None \<Rightarrow> None
           | Some a \<Rightarrow> Some \<lparr>receiverId = rid, amount = a\<rparr>))"

section \<open>Store statements\<close>

text \<open>
  A statement takes the store and returns its result, or the error it raised, with the
  store after it.
\<close>

type_synonym 'a tx = "Store \<Rightarrow> (error + 'a) \<times> Store"

definition tx_return :: "'a \<Rightarrow> 'a tx" where
  "tx_return x s = (Inr x, s)"

definition tx_throw :: "error \<Rightarrow> 'a tx" where
  "tx_throw e s = (Inl e, s)"

definition tx_bind :: "'a tx \<Rightarrow> ('a \<Rightarrow> 'b tx) \<Rightarrow> 'b tx" where
  "tx_bind m f s = (case m s of (Inl e, s') \<Rightarrow> (Inl e, s') | (Inr x, s') \<Rightarrow> f x s')"

text \<open>
  \<open>$transaction\<close>: the body's writes are kept when it returns and discarded when it
  throws; the error goes on to the caller.
\<close>

definition transaction :: "'a tx \<Rightarrow> 'a tx" where
  "transaction body s = (case body s of (Inl e, s') \<Rightarrow> (Inl e, s) | (Inr r, s') \<Rightarrow> (Inr r, s'))"

text \<open>An autoincrement key: above every key of the table.\<close>

definition nextId :: "int list \<Rightarrow> int" where
  "nextId ids = fold max ids 0 + 1"

text \<open>
  Modelled from the spec: the Prisma schema is not among the sources; the Order's total
  price is "integer, initially zero", the column default that \<open>order.create\<close> leaves in
  place.
\<close>

definition defaultTotalPrice :: int where
  "defaultTotalPrice = 0"

text \<open>\<open>product.findMany({ where: { id: { in: ids }, deletedAt: null } })\<close>\<close>

definition product_findMany :: "int list \<Rightarrow> Store \<Rightarrow> Product list" where
  "product_findMany ids s =
     filter (\<lambda>p. p_id p \<in> set ids \<and> p_deletedAt p = None) (products s)"

text \<open>\<open>order.create({ data: { userId } })\<close>\<close>

definition order_create :: "int \<Rightarrow> Order tx" where
  "order_create userId s =
     (let newOrder = \<lparr>o_id = nextId (map o_id (orders s)), o_userId = userId,
                      o_totalPrice = defaultTotalPrice, o_createdAt = now s\<rparr>
      in (Inr newOrder, s\<lparr>orders := orders s @ [newOrder]\<rparr>))"

text \<open>\<open>product.update({ where: { id }, data: { stock: { decrement: n } } })\<close>\<close>

definition product_update_decrement :: "int \<Rightarrow> int \<Rightarrow> unit tx" where
  "product_update_decrement pid n s =
     (if pid \<in> set (map p_id (products s))
      then (Inr (),
            s\<lparr>products :=
                map (\<lambda>p. if p_id p = pid then p\<lparr>p_stock := p_stock p - n\<rparr> else p) (products s)\<rparr>)
      else (Inl RecordNotFound, s))"

text \<open>
  \<open>orderItem.create({ data, omit: { orderId: true } })\<close>; the row goes to the table, and
  the value returned is the row (the response leaves its \<open>orderId\<close> out).
\<close>

definition orderItem_create :: "int \<Rightarrow> int \<Rightarrow> int \<Rightarrow> int \<Rightarrow> int \<Rightarrow> OrderItem tx" where
  "orderItem_create orderId pid qty unitPrice totalPrice s =
     (let row = \<lparr>oi_id = nextId (map oi_id (orderItems s)), oi_orderId = orderId,
                 oi_productId = pid, oi_quantity = qty, oi_unitPrice = unitPrice,
                 oi_totalPrice = totalPrice\<rparr>
      in (Inr row, s\<lparr>orderItems := orderItems s @ [row]\<rparr>))"

text \<open>\<open>order.update({ where: { id }, data: { totalPrice: { increment: n } } })\<close>\<close>

definition order_update_increment :: "int \<Rightarrow> int \<Rightarrow> Order tx" where
  "order_update_increment oid n s =
     (case find (\<lambda>ord. o_id ord = oid) (orders s) of
        None \<Rightarrow> (Inl RecordNotFound, s)
      | Some ord \<Rightarrow>
          (Inr (ord\<lparr>o_totalPrice := o_totalPrice ord + n\<rparr>),
           s\<lparr>orders :=
               map (\<lambda>x. if o_id x = oid then x\<lparr>o_totalPrice := o_totalPrice x + n\<rparr> else x)
                 (orders s)\<rparr>))"

text \<open>\<open>user.findUnique({ where: { id } })\<close>\<close>

definition user_findUnique :: "int \<Rightarrow> Store \<Rightarrow> User option" where
  "user_findUnique uid s = find (\<lambda>u. u_id u = uid) (users s)"

text \<open>\<open>user.update({ where: { id }, data: { point: { increment: n } } })\<close>\<close>

definition user_update_increment :: "int \<Rightarrow> int \<Rightarrow> User tx" where
  "user_update_increment uid n s =
     (case find (\<lambda>u. u_id u = uid) (users s) of
        None \<Rightarrow> (Inl RecordNotFound, s)
      | Some u \<Rightarrow>
          (Inr (u\<lparr>u_point := u_point u + n\<rparr>),
           s\<lparr>users :=
               map (\<lambda>x. if u_id x = uid then x\<lparr>u_point := u_point x + n\<rparr> else x) (users s)\<rparr>))"

text \<open>\<open>user.update({ where: { id }, data: { point: { decrement: n } } })\<close>\<close>

definition user_update_decrement :: "int \<Rightarrow> int \<Rightarrow> User tx" where
  "user_update_decrement uid n s =
     (case find (\<lambda>u. u_id u = uid) (users s) of
        None \<Rightarrow> (Inl RecordNotFound, s)
      | Some u \<Rightarrow>
          (Inr (u\<lparr>u_point := u_point u - n\<rparr>),
           s\<lparr>users :=
               map (\<lambda>x. if u_id x = uid then x\<lparr>u_point := u_point x - n\<rparr> else x) (users s)\<rparr>))"

section \<open>createOrder\<close>

text \<open>
  The stock availability check: \<open>items.forEach\<close> over the request's lines, against the
  products read before. The first line whose product has less stock than asked throws.
\<close>

fun stockCheck :: "Product list \<Rightarrow> Item list \<Rightarrow> error option" where
  "stockCheck prods [] = None"
| "stockCheck prods (item # rest) =
     (case find (\<lambda>p. p_id p = productId item) prods of
        None \<Rightarrow> stockCheck prods rest
      | Some product \<Rightarrow>
          if p_stock product < quantity item
          then Some (AppError 400 (''Not enough stock for product '' @ p_name product))
          else stockCheck prods rest)"

text \<open>
  Everything \<open>createOrder\<close> does before it opens the transaction, on the store \<open>s\<close> that
  \<open>product.findMany\<close> reads: the parsed lines and the products read, or the error thrown.
\<close>

definition validateOrder :: "RawItem list option \<Rightarrow> Store \<Rightarrow> error + (Item list \<times> Product list)" where
  "validateOrder body s =
     (case orderSchema body of
        None \<Rightarrow> Inl (AppError 400 ''Invalid request body'')
      | Some items \<Rightarrow>
          (let productIds = map productId items;
               prods = product_findMany productIds s
           in if length prods \<noteq> length productIds
              then Inl (AppError 400 ''One or more products not found'')
              else (case stockCheck prods items of
                      Some e \<Rightarrow> Inl e
                    | None \<Rightarrow> Inr (items, prods))))"

text \<open>
  The lines of the transaction: for each item, in input order, the stock decrement and the
  OrderItem row, priced from the products read before the transaction. \<open>Promise.all\<close>
  collects the rows in input order and rejects when a line rejects; the statements of
  different lines write different rows, so the store after them is the one of this order.
\<close>

fun createOrderItems :: "int \<Rightarrow> Product list \<Rightarrow> Item list \<Rightarrow> OrderItem list tx" where
  "createOrderItems orderId prods [] = tx_return []"
| "createOrderItems orderId prods (item # rest) =
     (case find (\<lambda>p. p_id p = productId item) prods of
        None \<Rightarrow> tx_throw TypeError
      | Some product \<Rightarrow>
          tx_bind (product_update_decrement (p_id product) (quantity item)) (\<lambda>_.
          tx_bind (orderItem_create orderId (p_id product) (quantity item) (p_price product)
                     (p_price product * quantity item)) (\<lambda>row.
          tx_bind (createOrderItems orderId prods rest) (\<lambda>rows.
          tx_return (row # rows)))))"

record OrderResult =
  res_order :: Order
  res_points :: int
  res_items :: "OrderItem list"

text \<open>The callback given to \<open>$transaction\<close>.\<close>

definition orderTransaction :: "JwtUser \<Rightarrow> Item list \<Rightarrow> Product list \<Rightarrow> OrderResult tx" where
  "orderTransaction user items prods =
     tx_bind (order_create (jwt_id user)) (\<lambda>newOrder.
     tx_bind (createOrderItems (o_id newOrder) prods items) (\<lambda>rows.
     let totalOrderPrice = foldl (\<lambda>acc item. acc + oi_totalPrice item) 0 rows in
     tx_bind (order_update_increment (o_id newOrder) totalOrderPrice) (\<lambda>newOrderWithTotalPrice.
     let points = totalOrderPrice div 1000 in
     tx_bind (user_update_increment (jwt_id user) points) (\<lambda>_.
     tx_return \<lparr>res_order = newOrderWithTotalPrice, res_points = points, res_items = rows\<rparr>))))"

text \<open>
  \<open>createOrder\<close> with the two moments it touches the store apart: \<open>s0\<close> is the store that
  \<open>product.findMany\<close> reads, \<open>s1\<close> the store on which the transaction runs (other requests
  may have written in between). A request rejected before the transaction writes nothing.
\<close>

definition createOrder_at ::
  "JwtUser \<Rightarrow> RawItem list option \<Rightarrow> Store \<Rightarrow> Store \<Rightarrow> (error + OrderResult) \<times> Store" where
  "createOrder_at user body s0 s1 =
     (case validateOrder body s0 of
        Inl e \<Rightarrow> (Inl e, s1)
      | Inr (items, prods) \<Rightarrow> transaction (orderTransaction user items prods) s1)"

text \<open>\<open>createOrder\<close> with no other request in between.\<close>

definition createOrder :: "JwtUser \<Rightarrow> RawItem list option \<Rightarrow> Store \<Rightarrow> (error + OrderResult) \<times> Store" where
  "createOrder user body s = createOrder_at user body s s"

section \<open>transferPoint\<close>

text \<open>
  \<open>transferPoint\<close>, with \<open>s0\<close> the store the two \<open>findUnique\<close> read and \<open>s1\<close> the store
  on which the transaction runs. The transaction is the list form of \<open>$transaction\<close>: its
  two updates run in order, and both are discarded when one throws.
\<close>

definition transferPoint_at ::
  "JwtUser \<Rightarrow> TransferBody \<Rightarrow> Store \<Rightarrow> Store \<Rightarrow> (error + User \<times> User) \<times> Store" where
  "transferPoint_at user body s0 s1 =
     (case transferPointSchema body of
        None \<Rightarrow> (Inl (AppError 400 ''Error in validation''), s1)
      | Some parse \<Rightarrow>
          if amount parse \<le> 0 then (Inl (AppError 400 ''Point must be greater than 0''), s1)
          else
            (case user_findUnique (jwt_id user) s0 of
               None \<Rightarrow> (Inl (AppError 400 ''Sender or Receiver not found''), s1)
             | Some sender \<Rightarrow>
                 (case user_findUnique (receiverId parse) s0 of
                    None \<Rightarrow> (Inl (AppError 400 ''Sender or Receiver not found''), s1)
                  | Some receiver \<Rightarrow>
                      if u_id sender = u_id receiver
                      then (Inl (AppError 400 ''Can't self transfer point''), s1)
                      else if u_point sender < amount parse
                      then (Inl (AppError 400 ''Insufficient points''), s1)
                      else
                        transaction
                          (tx_bind (user_update_decrement (u_id sender) (amount parse))
                             (\<lambda>updatedSender.
                           tx_bind (user_update_increment (receiverId parse) (amount parse))
                             (\<lambda>updatedReceiver.
                           tx_return (updatedSender, updatedReceiver))))
                          s1)))"

section \<open>getOrders\<close>

text \<open>
  The query string of \<open>GET /orders\<close>. A numeric parameter is held as \<open>Number(val)\<close>:
  \<open>None\<close> when that is \<open>NaN\<close> (the parameter is absent or not a number). The values are
  integers: the store's client takes no other number for \<open>take\<close>, \<open>skip\<close> or a filter on
  an integer column.
\<close>

record OrderQuery =
  q_sortBy :: "string option"
  q_minPrice :: "int option"
  q_maxPrice :: "int option"
  q_limit :: "int option"
  q_page :: "int option"

text \<open>\<open>stringToNumUndefined\<close>: the number, or \<open>undefined\<close> for \<open>NaN\<close>.\<close>

definition stringToNumUndefined :: "int option \<Rightarrow> int option" where
  "stringToNumUndefined num = (case num of None \<Rightarrow> None | Some n \<Rightarrow> Some n)"

text \<open>The two fields of \<open>paginationSchema\<close>: \<open>(limit, page)\<close>.\<close>

definition paginationSchema :: "OrderQuery \<Rightarrow> int \<times> int" where
  "paginationSchema q =
     ((case q_limit q of None \<Rightarrow> 30 | Some num \<Rightarrow> if num > 0 then num else 30),
      (case q_page q of None \<Rightarrow> 1 | Some num \<Rightarrow> if num > 0 then num else 1))"

text \<open>\<open>String.prototype.split\<close> on one separator character.\<close>

fun js_split :: "char \<Rightarrow> string \<Rightarrow> string list" where
  "js_split c [] = [[]]"
| "js_split c (x # xs) =
     (if x = c then [] # js_split c xs
      else (case js_split c xs of [] \<Rightarrow> [[x]] | w # ws \<Rightarrow> (x # w) # ws))"

datatype SortDir = Asc | Desc

datatype OrderOrderBy = ByTotalPrice SortDir | ByCreatedAt SortDir

definition buildOrderOrderBy :: "string option \<Rightarrow> OrderOrderBy" where
  "buildOrderOrderBy sortBy =
     (let fallback = ByCreatedAt Desc in
      case sortBy of
        None \<Rightarrow> fallback
      | Some sb \<Rightarrow>
          if sb = [] then fallback
          else
            (let parts = js_split CHR ''.'' sb;
                 col = (case parts of [] \<Rightarrow> None | c # _ \<Rightarrow> Some c);
                 dir = (case parts of c # d # _ \<Rightarrow> Some d | _ \<Rightarrow> None);
                 direction = (if dir = Some ''asc'' then Asc
                              else if dir = Some ''desc'' then Desc else Desc)
             in if col = Some ''totalPrice'' then ByTotalPrice direction
                else if col = Some ''createdAt'' then ByCreatedAt direction
                else fallback))"

text \<open>
  An \<open>OrderWhereInput\<close> as \<open>buildOrderWhere\<close> builds it: the object with the optional
  keys \<open>userId\<close> and \<open>totalPrice\<close> (a range with optional \<open>gte\<close> and \<open>lte\<close>), or the
  fallback \<open>{ items: { some: { totalPrice: { gte: 0 } } } }\<close>.
\<close>

datatype OrderWhereInput =
  OrderWhere "int option" "(int option \<times> int option) option"
  | ItemsSomeTotalPriceGte int

definition buildOrderWhere :: "int option \<Rightarrow> int option \<Rightarrow> int option \<Rightarrow> OrderWhereInput" where
  "buildOrderWhere userId minPrice maxPrice =
     (let fallback = ItemsSomeTotalPriceGte 0;
          totalPriceRange = (minPrice, maxPrice);
          totalPrice = (if minPrice \<noteq> None \<or> maxPrice \<noteq> None then Some totalPriceRange else None)
      in if userId \<noteq> None \<or> totalPrice \<noteq> None then OrderWhere userId totalPrice else fallback)"

text \<open>The rows a \<open>where\<close> selects.\<close>

definition inRange :: "(int option \<times> int option) \<Rightarrow> int \<Rightarrow> bool" where
  "inRange rng v =
     ((case fst rng of None \<Rightarrow> True | Some g \<Rightarrow> g \<le> v) \<and>
      (case snd rng of None \<Rightarrow> True | Some l \<Rightarrow> v \<le> l))"

fun orderMatches :: "Store \<Rightarrow> OrderWhereInput \<Rightarrow> Order \<Rightarrow> bool" where
  "orderMatches s (OrderWhere userId totalPrice) ord =
     ((case userId of None \<Rightarrow> True | Some uid \<Rightarrow> o_userId ord = uid) \<and>
      (case totalPrice of None \<Rightarrow> True | Some rng \<Rightarrow> inRange rng (o_totalPrice ord)))"
| "orderMatches s (ItemsSomeTotalPriceGte n) ord =
     list_ex (\<lambda>row. oi_orderId row = o_id ord \<and> n \<le> oi_totalPrice row) (orderItems s)"

fun applyOrderBy :: "OrderOrderBy \<Rightarrow> Order list \<Rightarrow> Order list" where
  "applyOrderBy (ByTotalPrice Asc) rows = sort_key o_totalPrice rows"
| "applyOrderBy (ByTotalPrice Desc) rows = sort_key (\<lambda>ord. - o_totalPrice ord) rows"
| "applyOrderBy (ByCreatedAt Asc) rows = sort_key (\<lambda>ord. int (o_createdAt ord)) rows"
| "applyOrderBy (ByCreatedAt Desc) rows = sort_key (\<lambda>ord. - int (o_createdAt ord)) rows"

text \<open>
  \<open>order.findMany({ where, orderBy, include: { items }, take, skip })\<close>: each order
  with its items.
\<close>

definition order_findMany ::
  "OrderWhereInput \<Rightarrow> OrderOrderBy \<Rightarrow> int \<Rightarrow> int \<Rightarrow> Store \<Rightarrow> (Order \<times> OrderItem list) list" where
  "order_findMany wh orderBy tk skip s =
     map (\<lambda>ord. (ord, filter (\<lambda>row. oi_orderId row = o_id ord) (orderItems s)))
       (take (nat tk) (drop (nat skip) (applyOrderBy orderBy (filter (orderMatches s wh) (orders s)))))"

text \<open>\<open>order.count({ where })\<close>\<close>

definition order_count :: "OrderWhereInput \<Rightarrow> Store \<Rightarrow> int" where
  "order_count wh s = int (length (filter (orderMatches s wh) (orders s)))"

record Meta =
  m_limit :: int
  m_page :: int
  m_total :: int
  m_data :: "(Order \<times> OrderItem list) list"

definition paginationResponse :: "int \<Rightarrow> int \<Rightarrow> int \<Rightarrow> (Order \<times> OrderItem list) list \<Rightarrow> Meta" where
  "paginationResponse limit page totalCount data =
     \<lparr>m_limit = limit, m_page = page, m_total = totalCount, m_data = data\<rparr>"

definition getOrders :: "JwtUser \<Rightarrow> OrderQuery \<Rightarrow> Store \<Rightarrow> Meta" where
  "getOrders user q s =
     (let sortBy = q_sortBy q;
          minPrice = stringToNumUndefined (q_minPrice q);
          maxPrice = stringToNumUndefined (q_maxPrice q);
          (limit, page) = paginationSchema q;
          orderBy = buildOrderOrderBy sortBy;
          wh = (if jwt_role user = ADMIN then buildOrderWhere None minPrice maxPrice
                else buildOrderWhere (Some (jwt_id user)) minPrice maxPrice);
          rows = order_findMany wh orderBy limit ((page - 1) * limit) s;
          totalCount = order_count wh s
      in paginationResponse limit page totalCount rows)"

section \<open>Auxiliary notions for the statements\<close>

text \<open>The stock column after the decrement of one line.\<close>

definition decrementStock :: "Item \<Rightarrow> Product list \<Rightarrow> Product list" where
  "decrementStock item ps =
     map (\<lambda>p. if p_id p = productId item then p\<lparr>p_stock := p_stock p - quantity item\<rparr> else p) ps"

text \<open>
  An OrderItem row is the row of a line: its order, product and quantity are the line's, its
  unit price is the price of the product read for the line, its total is price times
  quantity.
\<close>

definition lineRow :: "int \<Rightarrow> Product list \<Rightarrow> Item \<Rightarrow> OrderItem \<Rightarrow> bool" where
  "lineRow oid prods item row =
     (case find (\<lambda>p. p_id p = productId item) prods of
        None \<Rightarrow> False
      | Some product \<Rightarrow>
          oi_orderId row = oid \<and> oi_productId row = productId item \<and>
          oi_quantity row = quantity item \<and> oi_unitPrice row = p_price product \<and>
          oi_totalPrice row = p_price product * quantity item)"

text \<open>The point column after a credit to one user.\<close>

definition creditPoints :: "int \<Rightarrow> int \<Rightarrow> User list \<Rightarrow> User list" where
  "creditPoints uid n us = map (\<lambda>x. if u_id x = uid then x\<lparr>u_point := u_point x + n\<rparr> else x) us"

text \<open>
  A change of the live prices: every product's price becomes \<open>g id price\<close>, as the
  price write of \<open>updateProduct\<close> makes for one product.
\<close>

definition reprice :: "(int \<Rightarrow> int \<Rightarrow> int) \<Rightarrow> Store \<Rightarrow> Store" where
  "reprice g s = s\<lparr>products := map (\<lambda>p. p\<lparr>p_price := g (p_id p) (p_price p)\<rparr>) (products s)\<rparr>"

section \<open>Example stores and requests\<close>

text \<open>
  The end-to-end scenario: a buyer with no points orders 2 of product A (price 600,
  stock 5) and 1 of product B (price 1500, stock 2; the quantity left to its default).
\<close>

definition exA :: Product where
  "exA = \<lparr>p_id = 1, p_name = ''A'', p_price = 600, p_stock = 5, p_deletedAt = None\<rparr>"

definition exB :: Product where
  "exB = \<lparr>p_id = 2, p_name = ''B'', p_price = 1500, p_stock = 2, p_deletedAt = None\<rparr>"

definition exBuyer :: User where
  "exBuyer = \<lparr>u_id = 7, u_point = 0\<rparr>"

definition exStore :: Store where
  "exStore = \<lparr>products = [exA, exB], orders = [], orderItems = [], users = [exBuyer], now = 0\<rparr>"

definition exCaller :: JwtUser where
  "exCaller = \<lparr>jwt_id = 7, jwt_role = USER\<rparr>"

definition exBody :: "RawItem list option" where
  "exBody = Some [\<lparr>raw_productId = JNumber 1, raw_quantity = JNumber 2\<rparr>,
                  \<lparr>raw_productId = JNumber 2, raw_quantity = JUndefined\<rparr>]"

definition exItems :: "Item list" where
  "exItems = [\<lparr>productId = 1, quantity = 2\<rparr>, \<lparr>productId = 2, quantity = 1\<rparr>]"

definition exOrder :: Order where
  "exOrder = \<lparr>o_id = 1, o_userId = 7, o_totalPrice = 2700, o_createdAt = 0\<rparr>"

definition exRows :: "OrderItem list" where
  "exRows = [\<lparr>oi_id = 1, oi_orderId = 1, oi_productId = 1, oi_quantity = 2,
               oi_unitPrice = 600, oi_totalPrice = 1200\<rparr>,
             \<lparr>oi_id = 2, oi_orderId = 1, oi_productId = 2, oi_quantity = 1,
               oi_unitPrice = 1500, oi_totalPrice = 1500\<rparr>]"

definition exResult :: OrderResult where
  "exResult = \<lparr>res_order = exOrder, res_points = 2, res_items = exRows\<rparr>"

definition exStoreAfter :: Store where
  "exStoreAfter = \<lparr>products = [exA\<lparr>p_stock := 3\<rparr>, exB\<lparr>p_stock := 1\<rparr>], orders = [exOrder],
                    orderItems = exRows, users = [exBuyer\<lparr>u_point := 2\<rparr>], now = 0\<rparr>"

text \<open>One unit of product A at a given price: the order total is that price.\<close>

definition exPriced :: "int \<Rightarrow> Store" where
  "exPriced price = exStore\<lparr>products := [exA\<lparr>p_price := price\<rparr>]\<rparr>"

definition exOneLine :: "RawItem list option" where
  "exOneLine = Some [\<lparr>raw_productId = JNumber 1, raw_quantity = JNumber 1\<rparr>]"

text \<open>The same store with no row for the buyer: the point credit finds no user.\<close>

definition exNoBuyer :: Store where
  "exNoBuyer = (exPriced 2999)\<lparr>users := []\<rparr>"

text \<open>
  The store without the row of product B, and the store the transaction body leaves when
  its second line finds no row to update.
\<close>

definition exStoreNoB :: Store where
  "exStoreNoB = exStore\<lparr>products := [exA]\<rparr>"

definition exPartial :: Store where
  "exPartial = \<lparr>products = [exA\<lparr>p_stock := 3\<rparr>],
                 orders = [\<lparr>o_id = 1, o_userId = 7, o_totalPrice = 0, o_createdAt = 0\<rparr>],
                 orderItems = [\<lparr>oi_id = 1, oi_orderId = 1, oi_productId = 1, oi_quantity = 2,
                                 oi_unitPrice = 600, oi_totalPrice = 1200\<rparr>],
                 users = [exBuyer], now = 0\<rparr>"




text \<open>Two lines for the same product: within stock, and above stock.\<close>

definition exRepeated :: "RawItem list option" where
  "exRepeated = Some [\<lparr>raw_productId = JNumber 1, raw_quantity = JNumber 1\<rparr>,
                      \<lparr>raw_productId = JNumber 1, raw_quantity = JNumber 1\<rparr>]"

definition exRepeatedBig :: "RawItem list option" where
  "exRepeatedBig = Some [\<lparr>raw_productId = JNumber 1, raw_quantity = JNumber 10\<rparr>,
                         \<lparr>raw_productId = JNumber 1, raw_quantity = JNumber 10\<rparr>]"

text \<open>A price change: every price doubles.\<close>

definition exDoubled :: "int \<Rightarrow> int \<Rightarrow> int" where
  "exDoubled pid price = 2 * price"

text \<open>Two users, Alice with 10 points and Bob with none; Alice is the caller.\<close>

definition exAlice :: User where
  "exAlice = \<lparr>u_id = 1, u_point = 10\<rparr>"

definition exBob :: User where
  "exBob = \<lparr>u_id = 2, u_point = 0\<rparr>"

definition exUsers :: Store where
  "exUsers = \<lparr>products = [], orders = [], orderItems = [], users = [exAlice, exBob], now = 0\<rparr>"

definition exSender :: JwtUser where
  "exSender = \<lparr>jwt_id = 1, jwt_role = USER\<rparr>"

definition exTransfer :: "int \<Rightarrow> rat \<Rightarrow> TransferBody" where
  "exTransfer rid amt = \<lparr>raw_receiverId = JNumber (of_int rid), raw_amount = JNumber amt\<rparr>"

text \<open>The users after another request has taken 7 of Alice's 10 points.\<close>

definition exUsersLow :: Store where
  "exUsersLow = exUsers\<lparr>users := [exAlice\<lparr>u_point := 3\<rparr>, exBob]\<rparr>"

text \<open>Three orders, two of Alice and one of Bob, and a query with a lower price bound.\<close>

definition exOrders :: Store where
  "exOrders = \<lparr>products = [],
       orders = [\<lparr>o_id = 1, o_userId = 1, o_totalPrice = 500, o_createdAt = 3\<rparr>,
                 \<lparr>o_id = 2, o_userId = 2, o_totalPrice = 700, o_createdAt = 4\<rparr>,
                 \<lparr>o_id = 3, o_userId = 1, o_totalPrice = 900, o_createdAt = 5\<rparr>],
       orderItems = [], users = [exAlice, exBob], now = 6\<rparr>"

definition exQuery :: OrderQuery where
  "exQuery = \<lparr>q_sortBy = Some ''totalPrice.asc'', q_minPrice = Some 600, q_maxPrice = None,
               q_limit = None, q_page = None\<rparr>"

section \<open>Facts about the store statements\<close>

declare createOrderItems.simps(2) [simp del]

lemma find_SomeD: "find P xs = Some x \<Longrightarrow> P x \<and> x \<in> set xs"
  by (induction xs) (auto split: if_splits)

lemma fold_max_ge: "(a::int) \<le> fold max ids a"
proof (induction ids arbitrary: a)
  case Nil show ?case by simp
next
  case (Cons x xs)
  have "max x a \<le> fold max xs (max x a)" by (rule Cons.IH)
  then show ?case by simp
qed

lemma fold_max_mem: "(x::int) \<in> set ids \<Longrightarrow> x \<le> fold max ids a"
proof (induction ids arbitrary: a)
  case Nil then show ?case by simp
next
  case (Cons y ys)
  show ?case
  proof (cases "x = y")
    case True
    have "max y a \<le> fold max ys (max y a)" by (rule fold_max_ge)
    with True show ?thesis by simp
  next
    case False
    with Cons.prems have "x \<in> set ys" by simp
    then show ?thesis using Cons.IH by simp
  qed
qed

lemma nextId_fresh: "x \<in> set ids \<Longrightarrow> x < nextId ids"
  using fold_max_mem [of x ids 0] by (simp add: nextId_def)

lemma nextId_notin: "nextId ids \<notin> set ids"
  using nextId_fresh [of "nextId ids" ids] by auto


lemma createOrderItems_step:
  assumes "find (\<lambda>p. p_id p = productId item) prods = Some product"
    and "productId item \<in> set (map p_id (products s))"
  shows "createOrderItems oid prods (item # rest) s =
     (let row = \<lparr>oi_id = nextId (map oi_id (orderItems s)), oi_orderId = oid,
                 oi_productId = productId item, oi_quantity = quantity item,
                 oi_unitPrice = p_price product,
                 oi_totalPrice = p_price product * quantity item\<rparr>
      in case createOrderItems oid prods rest
             (s\<lparr>products := decrementStock item (products s),
                orderItems := orderItems s @ [row]\<rparr>) of
           (Inl e, s3) \<Rightarrow> (Inl e, s3)
         | (Inr rows, s3) \<Rightarrow> (Inr (row # rows), s3))"
proof -
  have pid: "p_id product = productId item" using find_SomeD [OF assms(1)] by simp
  define row where "row = \<lparr>oi_id = nextId (map oi_id (orderItems s)), oi_orderId = oid,
                 oi_productId = productId item, oi_quantity = quantity item,
                 oi_unitPrice = p_price product,
                 oi_totalPrice = p_price product * quantity item\<rparr>"
  define s2 where "s2 = s\<lparr>products := decrementStock item (products s),
                orderItems := orderItems s @ [row]\<rparr>"
  obtain res2 s3 where r2: "createOrderItems oid prods rest s2 = (res2, s3)"
    by (cases "createOrderItems oid prods rest s2")
  have d: "product_update_decrement (productId item) (quantity item) s =
             (Inr (), s\<lparr>products := decrementStock item (products s)\<rparr>)"
    using assms(2) by (simp add: product_update_decrement_def decrementStock_def)
  have c: "orderItem_create oid (productId item) (quantity item) (p_price product)
             (p_price product * quantity item) (s\<lparr>products := decrementStock item (products s)\<rparr>)
           = (Inr row, s2)"
    by (simp add: orderItem_create_def Let_def row_def s2_def)
  have "createOrderItems oid prods (item # rest) s =
          (case res2 of Inl e \<Rightarrow> (Inl e, s3) | Inr rows \<Rightarrow> (Inr (row # rows), s3))"
    by (simp add: createOrderItems.simps(2) assms(1) pid tx_bind_def d c r2 tx_return_def
        split: sum.splits)
  then show ?thesis
    unfolding Let_def row_def [symmetric] s2_def [symmetric] r2 by (simp split: sum.splits)
qed

lemma createOrderItems_stuck:
  assumes "find (\<lambda>p. p_id p = productId item) prods = Some product"
    and "productId item \<notin> set (map p_id (products s))"
  shows "createOrderItems oid prods (item # rest) s = (Inl RecordNotFound, s)"
proof -
  have "p_id product = productId item" using find_SomeD [OF assms(1)] by simp
  with assms show ?thesis
    by (simp add: createOrderItems.simps(2) tx_bind_def product_update_decrement_def)
qed

lemma createOrderItems_frame:
  "createOrderItems oid prods items s = (res, s') \<Longrightarrow>
     orders s' = orders s \<and> users s' = users s \<and> now s' = now s"
proof (induction items arbitrary: s res s')
  case Nil
  then show ?case by (auto simp: tx_return_def)
next
  case (Cons item rest)
  show ?case
  proof (cases "find (\<lambda>p. p_id p = productId item) prods")
    case None
    with Cons.prems show ?thesis by (auto simp: createOrderItems.simps(2) tx_throw_def)
  next
    case (Some product)
    show ?thesis
    proof (cases "productId item \<in> set (map p_id (products s))")
      case False
      with Cons.prems createOrderItems_stuck [OF Some, of s oid rest] show ?thesis by auto
    next
      case True
      define row where "row = \<lparr>oi_id = nextId (map oi_id (orderItems s)), oi_orderId = oid,
                 oi_productId = productId item, oi_quantity = quantity item,
                 oi_unitPrice = p_price product,
                 oi_totalPrice = p_price product * quantity item\<rparr>"
      define s2 where "s2 = s\<lparr>products := decrementStock item (products s),
                orderItems := orderItems s @ [row]\<rparr>"
      obtain res2 s3 where r2: "createOrderItems oid prods rest s2 = (res2, s3)"
        by (cases "createOrderItems oid prods rest s2")
      have "createOrderItems oid prods (item # rest) s =
          (case res2 of Inl e \<Rightarrow> (Inl e, s3) | Inr rows \<Rightarrow> (Inr (row # rows), s3))"
        unfolding row_def using createOrderItems_step [OF Some True, of oid rest] r2
        by (simp add: Let_def s2_def row_def split: sum.splits)
      with Cons.prems have "s' = s3" by (cases res2) simp_all
      moreover from Cons.IH [OF r2] have "orders s3 = orders s2 \<and> users s3 = users s2 \<and> now s3 = now s2" .
      ultimately show ?thesis by (simp add: s2_def)
    qed
  qed
qed

lemma createOrderItems_Inr:
  "createOrderItems oid prods items s = (Inr rows, s') \<Longrightarrow>
     products s' = fold decrementStock items (products s) \<and>
     orderItems s' = orderItems s @ rows \<and>
     list_all2 (lineRow oid prods) items rows"
proof (induction items arbitrary: s rows s')
  case Nil
  then show ?case by (auto simp: tx_return_def)
next
  case (Cons item rest)
  from Cons.prems obtain product where
    f: "find (\<lambda>p. p_id p = productId item) prods = Some product"
    by (cases "find (\<lambda>p. p_id p = productId item) prods")
      (auto simp: createOrderItems.simps(2) tx_throw_def)
  from Cons.prems f have m: "productId item \<in> set (map p_id (products s))"
    using createOrderItems_stuck [OF f, of s oid rest] by auto
  define row where "row = \<lparr>oi_id = nextId (map oi_id (orderItems s)), oi_orderId = oid,
                 oi_productId = productId item, oi_quantity = quantity item,
                 oi_unitPrice = p_price product,
                 oi_totalPrice = p_price product * quantity item\<rparr>"
  define s2 where "s2 = s\<lparr>products := decrementStock item (products s),
                orderItems := orderItems s @ [row]\<rparr>"
  have step: "createOrderItems oid prods (item # rest) s =
      (case createOrderItems oid prods rest s2 of
         (Inl e, s3) \<Rightarrow> (Inl e, s3)
       | (Inr rows, s3) \<Rightarrow> (Inr (row # rows), s3))"
    unfolding row_def s2_def using createOrderItems_step [OF f m, of oid rest]
    by (simp only: Let_def)
  obtain res2 s3 where r2: "createOrderItems oid prods rest s2 = (res2, s3)"
    by (cases "createOrderItems oid prods rest s2")
  from Cons.prems step r2 obtain rows2 where "res2 = Inr rows2" and "s3 = s'" and rows: "rows = row # rows2"
    by (cases res2) simp_all
  with r2 have r: "createOrderItems oid prods rest s2 = (Inr rows2, s')" by simp
  from Cons.IH [OF r] have ih: "products s' = fold decrementStock rest (products s2)"
    "orderItems s' = orderItems s2 @ rows2" "list_all2 (lineRow oid prods) rest rows2"
    by simp_all
  have "lineRow oid prods item row" using f by (simp add: lineRow_def row_def)
  with ih rows show ?case by (simp add: s2_def)
qed

lemma foldl_totalPrice:
  "foldl (\<lambda>acc item. acc + oi_totalPrice item) a rows = a + sum_list (map oi_totalPrice rows)"
  by (induction rows arbitrary: a) simp_all

lemma find_fresh_order:
  "\<forall>x\<in>set xs. o_id x \<noteq> k \<Longrightarrow> o_id y = k \<Longrightarrow> find (\<lambda>ord. o_id ord = k) (xs @ [y]) = Some y"
  by (induction xs) simp_all

lemma map_fresh_order:
  "\<forall>x\<in>set xs. o_id x \<noteq> k \<Longrightarrow> map (\<lambda>x. if o_id x = k then f x else x) xs = xs"
  by (induction xs) simp_all

lemma orders_fresh: "\<forall>x\<in>set (orders s). o_id x \<noteq> nextId (map o_id (orders s))"
proof
  fix x assume "x \<in> set (orders s)"
  then have "o_id x \<in> set (map o_id (orders s))" by simp
  then have "o_id x < nextId (map o_id (orders s))" by (rule nextId_fresh)
  then show "o_id x \<noteq> nextId (map o_id (orders s))" by simp
qed

lemma orderTransaction_Inr:
  assumes "orderTransaction user items prods s = (Inr r, s')"
  shows "res_order r = \<lparr>o_id = nextId (map o_id (orders s)), o_userId = jwt_id user,
                         o_totalPrice = defaultTotalPrice + sum_list (map oi_totalPrice (res_items r)),
                         o_createdAt = now s\<rparr>"
    and "res_points r = sum_list (map oi_totalPrice (res_items r)) div 1000"
    and "list_all2 (lineRow (nextId (map o_id (orders s))) prods) items (res_items r)"
    and "orders s' = orders s @ [res_order r]"
    and "orderItems s' = orderItems s @ res_items r"
    and "products s' = fold decrementStock items (products s)"
    and "users s' = creditPoints (jwt_id user) (res_points r) (users s)"
    and "jwt_id user \<in> set (map u_id (users s))"
    and "now s' = now s"
proof -
  define oid where "oid = nextId (map o_id (orders s))"
  define newOrder where "newOrder = \<lparr>o_id = oid, o_userId = jwt_id user,
                      o_totalPrice = defaultTotalPrice, o_createdAt = now s\<rparr>"
  define s1 where "s1 = s\<lparr>orders := orders s @ [newOrder]\<rparr>"
  have oc: "order_create (jwt_id user) s = (Inr newOrder, s1)"
    by (simp add: order_create_def Let_def newOrder_def s1_def oid_def)
  obtain res1 s2 where c: "createOrderItems oid prods items s1 = (res1, s2)"
    by (cases "createOrderItems oid prods items s1")
  have oid: "o_id newOrder = oid" by (simp add: newOrder_def)
  from assms oc c oid obtain rows where rows: "res1 = Inr rows"
    by (cases res1) (simp_all add: orderTransaction_def tx_bind_def)
  define total where "total = sum_list (map oi_totalPrice rows)"
  have fl: "foldl (\<lambda>acc item. acc + oi_totalPrice item) 0 rows = total"
    by (simp add: foldl_totalPrice total_def)
  from createOrderItems_frame [OF c] have fr: "orders s2 = orders s1" "users s2 = users s1" "now s2 = now s1"
    by simp_all
  from createOrderItems_Inr [OF c [unfolded rows]]
  have ci: "products s2 = fold decrementStock items (products s1)"
    "orderItems s2 = orderItems s1 @ rows" "list_all2 (lineRow oid prods) items rows"
    by simp_all
  define updated where "updated = newOrder\<lparr>o_totalPrice := o_totalPrice newOrder + total\<rparr>"
  define s3 where "s3 = s2\<lparr>orders := orders s @ [updated]\<rparr>"
  have fresh: "\<forall>x\<in>set (orders s). o_id x \<noteq> oid" unfolding oid_def by (rule orders_fresh)
  have fnd: "find (\<lambda>ord. o_id ord = oid) (orders s2) = Some newOrder"
    using find_fresh_order [OF fresh oid] by (simp add: fr s1_def)
  have mp: "map (\<lambda>x. if o_id x = oid then x\<lparr>o_totalPrice := o_totalPrice x + total\<rparr> else x) (orders s2)
            = orders s @ [updated]"
    using map_fresh_order [OF fresh] by (simp add: fr s1_def oid updated_def)
  have ou: "order_update_increment oid total s2 = (Inr updated, s3)"
    by (simp add: order_update_increment_def fnd mp updated_def s3_def)
  define points where "points = total div 1000"
  obtain res4 s4 where uu: "user_update_increment (jwt_id user) points s3 = (res4, s4)"
    by (cases "user_update_increment (jwt_id user) points s3")
  have ot: "orderTransaction user items prods s =
      (case res4 of Inl e \<Rightarrow> (Inl e, s4)
       | Inr u \<Rightarrow> (Inr \<lparr>res_order = updated, res_points = points, res_items = rows\<rparr>, s4))"
    by (simp add: orderTransaction_def tx_bind_def oc oid c rows Let_def fl ou points_def [symmetric] uu
        tx_return_def split: sum.splits)
  from assms ot obtain u where r4: "res4 = Inr u"
    and r: "r = \<lparr>res_order = updated, res_points = points, res_items = rows\<rparr>" and s4: "s' = s4"
    by (cases res4) simp_all
  from uu r4 obtain u0 where u0: "find (\<lambda>u. u_id u = jwt_id user) (users s3) = Some u0"
    by (cases "find (\<lambda>u. u_id u = jwt_id user) (users s3)") (simp_all add: user_update_increment_def)
  from uu u0 have s4_eq: "s4 = s3\<lparr>users := creditPoints (jwt_id user) points (users s3)\<rparr>"
    by (simp add: user_update_increment_def creditPoints_def)
  have us3: "users s3 = users s" by (simp add: s3_def fr s1_def)
  show "res_order r = \<lparr>o_id = nextId (map o_id (orders s)), o_userId = jwt_id user,
                         o_totalPrice = defaultTotalPrice + sum_list (map oi_totalPrice (res_items r)),
                         o_createdAt = now s\<rparr>"
    by (simp add: r updated_def newOrder_def total_def oid_def)
  show "res_points r = sum_list (map oi_totalPrice (res_items r)) div 1000"
    by (simp add: r points_def total_def)
  show "list_all2 (lineRow (nextId (map o_id (orders s))) prods) items (res_items r)"
    using ci(3) by (simp add: r oid_def)
  show "orders s' = orders s @ [res_order r]"
    by (simp add: s4 s4_eq s3_def r)
  show "orderItems s' = orderItems s @ res_items r"
    by (simp add: s4 s4_eq s3_def r ci s1_def)
  show "products s' = fold decrementStock items (products s)"
    by (simp add: s4 s4_eq s3_def ci s1_def)
  show "users s' = creditPoints (jwt_id user) (res_points r) (users s)"
    by (simp add: s4 s4_eq us3 r)
  from u0 us3 have "find (\<lambda>u. u_id u = jwt_id user) (users s) = Some u0" by simp
  then have "u_id u0 = jwt_id user \<and> u0 \<in> set (users s)"
    by (rule find_SomeD)
  then show "jwt_id user \<in> set (map u_id (users s))" by force
  show "now s' = now s" by (simp add: s4 s4_eq s3_def fr s1_def)
qed

section \<open>createOrder: the committed order\<close>

lemmas ex_defs = exA_def exB_def exBuyer_def exStore_def exCaller_def exBody_def exItems_def
  exOrder_def exRows_def exResult_def exStoreAfter_def

lemmas eval_defs = createOrder_def createOrder_at_def validateOrder_def orderSchema_def
  orderItemSchema_def zIntPositive_def product_findMany_def transaction_def
  orderTransaction_def tx_bind_def tx_return_def tx_throw_def order_create_def nextId_def
  defaultTotalPrice_def product_update_decrement_def orderItem_create_def
  order_update_increment_def user_update_increment_def createOrderItems.simps(2) Let_def

lemma ex_validate: "validateOrder exBody exStore = Inr (exItems, [exA, exB])"
  by (simp add: ex_defs eval_defs)

lemma ex_transaction: "orderTransaction exCaller exItems [exA, exB] exStore = (Inr exResult, exStoreAfter)"
  by (simp add: ex_defs eval_defs)

lemma ex_createOrder: "createOrder_at exCaller exBody exStore exStore = (Inr exResult, exStoreAfter)"
  by (simp add: createOrder_at_def ex_validate transaction_def ex_transaction)

lemma validateOrder_Inr:
  assumes "validateOrder body s0 = Inr (items, prods)"
  shows "orderSchema body = Some items \<and> prods = product_findMany (map productId items) s0 \<and>
         length prods = length items \<and> stockCheck prods items = None"
proof -
  from assms obtain its where its: "orderSchema body = Some its"
    by (cases "orderSchema body") (simp_all add: validateOrder_def)
  define ps where "ps = product_findMany (map productId its) s0"
  from assms its have len: "length ps = length its"
    by (cases "length ps = length its") (simp_all add: validateOrder_def Let_def ps_def)
  from assms its len have sc: "stockCheck ps its = None"
    by (cases "stockCheck ps its") (simp_all add: validateOrder_def Let_def ps_def)
  from assms its len sc have eq: "items = its" "prods = ps"
    by (auto simp: validateOrder_def Let_def ps_def)
  show ?thesis unfolding eq using its len sc by (simp add: ps_def)
qed

lemma createOrder_at_Inr:
  assumes "createOrder_at user body s0 s1 = (Inr r, s')"
  shows "\<exists>items prods. validateOrder body s0 = Inr (items, prods) \<and>
           orderTransaction user items prods s1 = (Inr r, s')"
proof (cases "validateOrder body s0")
  case (Inl e)
  with assms show ?thesis by (simp add: createOrder_at_def)
next
  case (Inr v)
  obtain items prods where v: "v = (items, prods)" by (cases v)
  obtain res sp where t: "orderTransaction user items prods s1 = (res, sp)"
    by (cases "orderTransaction user items prods s1")
  from assms Inr v t have "res = Inr r \<and> sp = s'"
    by (cases res) (simp_all add: createOrder_at_def transaction_def)
  with Inr v t show ?thesis by simp
qed

lemma createOrder_rejected_no_write:
  assumes "createOrder_at user body s0 s1 = (Inl e, s')"
  shows "s' = s1"
proof (cases "validateOrder body s0")
  case (Inl e')
  with assms show ?thesis by (simp add: createOrder_at_def)
next
  case (Inr v)
  obtain items prods where v: "v = (items, prods)" by (cases v)
  obtain res sp where t: "orderTransaction user items prods s1 = (res, sp)"
    by (cases "orderTransaction user items prods s1")
  from assms Inr v t show ?thesis
    by (cases res) (simp_all add: createOrder_at_def transaction_def)
qed

lemma list_all2_set2: "list_all2 P xs ys \<Longrightarrow> y \<in> set ys \<Longrightarrow> \<exists>x\<in>set xs. P x y"
  by (induction rule: list_all2_induct) auto

lemma lineRow_total:
  "lineRow oid prods item row \<Longrightarrow>
     oi_totalPrice row = oi_unitPrice row * oi_quantity row \<and> oi_orderId row = oid"
  by (cases "find (\<lambda>p. p_id p = productId item) prods") (simp_all add: lineRow_def)

text \<open>
  C1. Every successful \<open>createOrder\<close> returns and stores an order whose total is the sum
  of the totals of the items created for it, and every such item's total is its unit price
  times its quantity.
\<close>

theorem createOrder_total_consistency:
  assumes "createOrder_at user body s0 s1 = (Inr r, s')"
  shows "o_totalPrice (res_order r) = sum_list (map oi_totalPrice (res_items r)) \<and>
         (\<forall>row\<in>set (res_items r).
            oi_totalPrice row = oi_unitPrice row * oi_quantity row \<and>
            oi_orderId row = o_id (res_order r)) \<and>
         orders s' = orders s1 @ [res_order r] \<and>
         orderItems s' = orderItems s1 @ res_items r"
proof -
  from createOrder_at_Inr [OF assms] obtain items prods where
    t: "orderTransaction user items prods s1 = (Inr r, s')" by blast
  note f = orderTransaction_Inr [OF t]
  have total: "o_totalPrice (res_order r) = sum_list (map oi_totalPrice (res_items r))"
    by (simp add: f(1) defaultTotalPrice_def)
  have oid: "o_id (res_order r) = nextId (map o_id (orders s1))" by (simp add: f(1))
  have rows: "\<forall>row\<in>set (res_items r).
            oi_totalPrice row = oi_unitPrice row * oi_quantity row \<and>
            oi_orderId row = o_id (res_order r)"
  proof
    fix row assume "row \<in> set (res_items r)"
    with list_all2_set2 [OF f(3)] obtain item where
      "lineRow (nextId (map o_id (orders s1))) prods item row" by blast
    from lineRow_total [OF this] show "oi_totalPrice row = oi_unitPrice row * oi_quantity row \<and>
            oi_orderId row = o_id (res_order r)"
      by (simp add: oid)
  qed
  from total rows f(4) f(5) show ?thesis by simp
qed

theorem createOrder_total_consistency_witness:
  "createOrder_at exCaller exBody exStore exStore = (Inr exResult, exStoreAfter) \<and>
   o_totalPrice (res_order exResult) = 2700 \<and>
   sum_list (map oi_totalPrice (res_items exResult)) = 2700 \<and>
   map oi_totalPrice (res_items exResult) = [600 * 2, 1500 * 1] \<and>
   orders exStoreAfter = orders exStore @ [res_order exResult] \<and>
   orderItems exStoreAfter = orderItems exStore @ res_items exResult"
  using createOrder_total_consistency [OF ex_createOrder] ex_createOrder
  by (simp add: exResult_def exRows_def exOrder_def exStoreAfter_def exStore_def)

section \<open>createOrder: points\<close>

lemma find_map_update_user:
  "find (\<lambda>u. u_id u = k) (map (\<lambda>x. if u_id x = k then x\<lparr>u_point := f x\<rparr> else x) us)
     = map_option (\<lambda>x. x\<lparr>u_point := f x\<rparr>) (find (\<lambda>u. u_id u = k) us)"
  by (induction us) simp_all

lemma find_map_other_user:
  "j \<noteq> k \<Longrightarrow>
   find (\<lambda>u. u_id u = j) (map (\<lambda>x. if u_id x = k then x\<lparr>u_point := f x\<rparr> else x) us)
     = find (\<lambda>u. u_id u = j) us"
  by (induction us) simp_all

lemma find_mem_user:
  "k \<in> set (map u_id us) \<Longrightarrow> \<exists>u. find (\<lambda>u. u_id u = k) us = Some u"
  by (induction us) auto

text \<open>
  C2. Every successful \<open>createOrder\<close> returns points equal to the order total divided by
  1000, rounded down, and the store it leaves holds both the order and the buyer's balance
  raised by exactly these points; no other user's balance changes. Every \<open>createOrder\<close>
  that ends in an error leaves the store of transaction entry: the order is never kept
  without the credit, nor the credit without the order.
\<close>

theorem createOrder_points:
  "(\<forall>r s'. createOrder_at user body s0 s1 = (Inr r, s') \<longrightarrow>
      res_points r = o_totalPrice (res_order r) div 1000 \<and>
      (\<exists>u. user_findUnique (jwt_id user) s1 = Some u \<and>
           user_findUnique (jwt_id user) s' = Some (u\<lparr>u_point := u_point u + res_points r\<rparr>)) \<and>
      (\<forall>uid. uid \<noteq> jwt_id user \<longrightarrow> user_findUnique uid s' = user_findUnique uid s1) \<and>
      orders s' = orders s1 @ [res_order r]) \<and>
   (\<forall>e s'. createOrder_at user body s0 s1 = (Inl e, s') \<longrightarrow> s' = s1)"
proof (intro conjI allI impI)
  fix r s'
  assume run: "createOrder_at user body s0 s1 = (Inr r, s')"
  from createOrder_at_Inr [OF run] obtain items prods where
    t: "orderTransaction user items prods s1 = (Inr r, s')" by blast
  note f = orderTransaction_Inr [OF t]
  show "res_points r = o_totalPrice (res_order r) div 1000"
    by (simp add: f(1) f(2) defaultTotalPrice_def)
  from find_mem_user [OF f(8)] obtain u where
    u: "find (\<lambda>u. u_id u = jwt_id user) (users s1) = Some u" by blast
  have own: "user_findUnique (jwt_id user) s' = Some (u\<lparr>u_point := u_point u + res_points r\<rparr>)"
    by (simp add: user_findUnique_def f(7) creditPoints_def find_map_update_user u)
  with u show "\<exists>u. user_findUnique (jwt_id user) s1 = Some u \<and>
           user_findUnique (jwt_id user) s' = Some (u\<lparr>u_point := u_point u + res_points r\<rparr>)"
    by (simp add: user_findUnique_def)
  show "orders s' = orders s1 @ [res_order r]" by (rule f(4))
  fix uid assume "uid \<noteq> jwt_id user"
  then show "user_findUnique uid s' = user_findUnique uid s1"
    by (simp add: user_findUnique_def f(7) creditPoints_def find_map_other_user)
next
  fix e s'
  assume "createOrder_at user body s0 s1 = (Inl e, s')"
  then show "s' = s1" by (rule createOrder_rejected_no_write)
qed

lemma ex_priced:
  "createOrder_at exCaller exOneLine (exPriced price) (exPriced price) =
     (Inr \<lparr>res_order = \<lparr>o_id = 1, o_userId = 7, o_totalPrice = price, o_createdAt = 0\<rparr>,
           res_points = price div 1000,
           res_items = [\<lparr>oi_id = 1, oi_orderId = 1, oi_productId = 1, oi_quantity = 1,
                          oi_unitPrice = price, oi_totalPrice = price\<rparr>]\<rparr>,
      \<lparr>products = [exA\<lparr>p_price := price, p_stock := 4\<rparr>],
        orders = [\<lparr>o_id = 1, o_userId = 7, o_totalPrice = price, o_createdAt = 0\<rparr>],
        orderItems = [\<lparr>oi_id = 1, oi_orderId = 1, oi_productId = 1, oi_quantity = 1,
                          oi_unitPrice = price, oi_totalPrice = price\<rparr>],
        users = [\<lparr>u_id = 7, u_point = price div 1000\<rparr>], now = 0\<rparr>)"
  by (simp add: exPriced_def exOneLine_def ex_defs eval_defs)

lemma ex_no_buyer_body:
  "orderTransaction exCaller [\<lparr>productId = 1, quantity = 1\<rparr>] [exA\<lparr>p_price := 2999\<rparr>] exNoBuyer =
     (Inl RecordNotFound,
      \<lparr>products = [exA\<lparr>p_price := 2999, p_stock := 4\<rparr>],
        orders = [\<lparr>o_id = 1, o_userId = 7, o_totalPrice = 2999, o_createdAt = 0\<rparr>],
        orderItems = [\<lparr>oi_id = 1, oi_orderId = 1, oi_productId = 1, oi_quantity = 1,
                          oi_unitPrice = 2999, oi_totalPrice = 2999\<rparr>],
        users = [], now = 0\<rparr>)"
  by (simp add: exNoBuyer_def exPriced_def ex_defs eval_defs)

lemma ex_no_buyer:
  "createOrder_at exCaller exOneLine (exPriced 2999) exNoBuyer = (Inl RecordNotFound, exNoBuyer)"
  by (simp add: exNoBuyer_def exPriced_def exOneLine_def ex_defs eval_defs)

theorem createOrder_points_witness:
  "createOrder_at exCaller exOneLine (exPriced 2999) (exPriced 2999) =
     (Inr \<lparr>res_order = \<lparr>o_id = 1, o_userId = 7, o_totalPrice = 2999, o_createdAt = 0\<rparr>,
           res_points = 2,
           res_items = [\<lparr>oi_id = 1, oi_orderId = 1, oi_productId = 1, oi_quantity = 1,
                          oi_unitPrice = 2999, oi_totalPrice = 2999\<rparr>]\<rparr>,
      \<lparr>products = [exA\<lparr>p_price := 2999, p_stock := 4\<rparr>],
        orders = [\<lparr>o_id = 1, o_userId = 7, o_totalPrice = 2999, o_createdAt = 0\<rparr>],
        orderItems = [\<lparr>oi_id = 1, oi_orderId = 1, oi_productId = 1, oi_quantity = 1,
                          oi_unitPrice = 2999, oi_totalPrice = 2999\<rparr>],
        users = [\<lparr>u_id = 7, u_point = 2\<rparr>], now = 0\<rparr>) \<and>
   user_findUnique 7 (exPriced 2999) = Some \<lparr>u_id = 7, u_point = 0\<rparr> \<and>
   (2::int) = 2999 div 1000 \<and>
   orders (snd (orderTransaction exCaller [\<lparr>productId = 1, quantity = 1\<rparr>]
                  [exA\<lparr>p_price := 2999\<rparr>] exNoBuyer)) =
     [\<lparr>o_id = 1, o_userId = 7, o_totalPrice = 2999, o_createdAt = 0\<rparr>] \<and>
   createOrder_at exCaller exOneLine (exPriced 2999) exNoBuyer = (Inl RecordNotFound, exNoBuyer) \<and>
   orders exNoBuyer = [] \<and> users exNoBuyer = []"
  using createOrder_points [of exCaller exOneLine "exPriced 2999" "exPriced 2999"]
    createOrder_points [of exCaller exOneLine "exPriced 2999" exNoBuyer]
    ex_priced [of 2999] ex_no_buyer ex_no_buyer_body
  by (simp add: exNoBuyer_def exPriced_def ex_defs user_findUnique_def)

lemma points_for_3000:
  "res_points (projr (fst (createOrder_at exCaller exOneLine (exPriced 3000) (exPriced 3000)))) = 3"
  by (simp add: ex_priced)

lemma points_for_999:
  "res_points (projr (fst (createOrder_at exCaller exOneLine (exPriced 999) (exPriced 999)))) = 0"
  by (simp add: ex_priced)

section \<open>createOrder: atomicity\<close>

text \<open>
  C4. When a step of the transaction throws, \<open>createOrder\<close> ends with that one error and
  the store it found at transaction entry: the order row, the item rows, the stock
  decrements and the point credit the body had made are gone.
\<close>

theorem createOrder_atomic:
  assumes "validateOrder body s0 = Inr (items, prods)"
    and "orderTransaction user items prods s1 = (Inl e, sp)"
  shows "createOrder_at user body s0 s1 = (Inl e, s1)"
  using assms by (simp add: createOrder_at_def transaction_def)

lemma ex_partial:
  "orderTransaction exCaller exItems [exA, exB] exStoreNoB = (Inl RecordNotFound, exPartial)"
  by (simp add: exStoreNoB_def exPartial_def ex_defs eval_defs)

theorem createOrder_atomic_witness:
  "validateOrder exBody exStore = Inr (exItems, [exA, exB]) \<and>
   orderTransaction exCaller exItems [exA, exB] exStoreNoB = (Inl RecordNotFound, exPartial) \<and>
   orders exPartial \<noteq> orders exStoreNoB \<and>
   createOrder_at exCaller exBody exStore exStoreNoB = (Inl RecordNotFound, exStoreNoB)"
  using createOrder_atomic [OF ex_validate ex_partial] ex_validate ex_partial
  by (simp add: exPartial_def exStoreNoB_def exStore_def)

section \<open>createOrder: stock\<close>













text \<open>
  The transaction callback itself does not look at the stock: given two lines of 3 for
  product A (stock 5), each within stock, it commits with the stock at -1. No such lines
  reach it, because the found-check rejects every request that repeats a product id.
\<close>

lemma repeated_lines_oversell:
  "stockCheck [exA] [\<lparr>productId = 1, quantity = 3\<rparr>, \<lparr>productId = 1, quantity = 3\<rparr>] = None \<and>
   map p_stock (products (snd (orderTransaction exCaller
       [\<lparr>productId = 1, quantity = 3\<rparr>, \<lparr>productId = 1, quantity = 3\<rparr>] [exA] exStore))) = [- 1, 2]"
  by (simp add: ex_defs eval_defs)

section \<open>createOrder: rejections before the transaction\<close>

lemma validateOrder_notFound_iff:
  "validateOrder body s = Inl (AppError 400 ''One or more products not found'') \<longleftrightarrow>
     (\<exists>items. orderSchema body = Some items \<and>
        length (product_findMany (map productId items) s) \<noteq> length items)"
proof (cases "orderSchema body")
  case None
  then show ?thesis by (simp add: validateOrder_def)
next
  case (Some items)
  show ?thesis
  proof (cases "length (product_findMany (map productId items) s) = length items")
    case False
    with Some show ?thesis by (simp add: validateOrder_def Let_def)
  next
    case True
    have "stockCheck prods its \<noteq> Some (AppError 400 ''One or more products not found'')" for prods its
      by (induction its) (auto split: option.splits)
    with Some True show ?thesis
      by (auto simp: validateOrder_def Let_def split: option.splits)
  qed
qed

lemma findMany_length_le:
  assumes "distinct (map p_id (products s))"
  shows "length (product_findMany ids s) \<le> length (remdups ids)"
proof -
  have d: "distinct (map p_id (product_findMany ids s))"
    using assms by (simp add: product_findMany_def distinct_map_filter)
  have sub: "set (map p_id (product_findMany ids s)) \<subseteq> set ids"
    by (auto simp: product_findMany_def)
  have "length (product_findMany ids s) = card (set (map p_id (product_findMany ids s)))"
    using distinct_card [OF d] by simp
  also have "\<dots> \<le> card (set ids)" using sub by (simp add: card_mono)
  also have "\<dots> = length (remdups ids)" by (simp add: length_remdups_card_conv)
  finally show ?thesis .
qed

text \<open>
  The comparison \<open>createOrder\<close> makes: the products read count differently from the
  requested ids exactly when fewer products resolve than distinct ids were requested, or
  an id is requested twice.
\<close>

lemma notFound_test:
  assumes "distinct (map p_id (products s))"
  shows "length (product_findMany ids s) \<noteq> length ids \<longleftrightarrow>
           length (product_findMany ids s) < length (remdups ids) \<or> \<not> distinct ids"
proof -
  note le = findMany_length_le [OF assms, of ids]
  have le2: "length (remdups ids) \<le> length ids" by (rule length_remdups_leq)
  have eq: "length (remdups ids) = length ids \<longleftrightarrow> distinct ids"
    by (metis length_remdups_eq remdups_id_iff_distinct)
  from le le2 eq show ?thesis by linarith
qed

text \<open>
  So every request that repeats a product id is rejected as not found, on any store with
  unique product ids, whether or not its products exist.
\<close>

lemma repeated_id_rejected:
  assumes "orderSchema body = Some items"
    and "distinct (map p_id (products s0))"
    and "\<not> distinct (map productId items)"
  shows "createOrder_at user body s0 s1 =
           (Inl (AppError 400 ''One or more products not found''), s1)"
proof -
  from notFound_test [OF assms(2), of "map productId items"] assms(3)
  have "length (product_findMany (map productId items) s0) \<noteq> length items" by simp
  with assms(1) show ?thesis by (simp add: createOrder_at_def validateOrder_def Let_def)
qed

text \<open>
  C5, at the failing input: both lines ask for product 1, which exists and is not deleted.
  One product resolves for the one distinct id requested, and \<open>createOrder\<close> rejects the
  request as not found.
\<close>

theorem createOrder_repeated_product:
  "createOrder exCaller exRepeated exStore =
     (Inl (AppError 400 ''One or more products not found''), exStore) \<and>
   orderSchema exRepeated = Some [\<lparr>productId = 1, quantity = 1\<rparr>, \<lparr>productId = 1, quantity = 1\<rparr>] \<and>
   product_findMany [1, 1] exStore = [exA] \<and>
   length (product_findMany [1, 1] exStore) = length (remdups [1, 1 :: int])"
  by (simp add: exRepeated_def ex_defs eval_defs)

lemma stockCheck_first:
  assumes "\<forall>i\<in>set pre. \<forall>q. find (\<lambda>p. p_id p = productId i) prods = Some q \<longrightarrow> quantity i \<le> p_stock q"
    and "find (\<lambda>p. p_id p = productId item) prods = Some p"
    and "p_stock p < quantity item"
  shows "stockCheck prods (pre @ item # post) =
           Some (AppError 400 (''Not enough stock for product '' @ p_name p))"
  using assms by (induction pre) (auto split: option.splits)

text \<open>
  What \<open>createOrder\<close> does when no product id is repeated: with every id resolved and the
  lines before \<open>item\<close> within stock, a line that asks for more than the stock is rejected
  before the transaction, naming its product, and the store is as found.
\<close>

lemma createOrder_insufficient_stock:
  assumes "orderSchema body = Some (pre @ item # post)"
    and "length (product_findMany (map productId (pre @ item # post)) s0) = length (pre @ item # post)"
    and "\<forall>i\<in>set pre. \<forall>q. find (\<lambda>p. p_id p = productId i)
             (product_findMany (map productId (pre @ item # post)) s0) = Some q \<longrightarrow> quantity i \<le> p_stock q"
    and "find (\<lambda>p. p_id p = productId item) (product_findMany (map productId (pre @ item # post)) s0) = Some p"
    and "p_stock p < quantity item"
  shows "createOrder_at user body s0 s1 =
           (Inl (AppError 400 (''Not enough stock for product '' @ p_name p)), s1)"
proof -
  from stockCheck_first [OF assms(3) assms(4) assms(5), of post]
  have "stockCheck (product_findMany (map productId (pre @ item # post)) s0) (pre @ item # post) =
           Some (AppError 400 (''Not enough stock for product '' @ p_name p))" .
  with assms(1) assms(2) show ?thesis
    by (simp add: createOrder_at_def validateOrder_def Let_def del: stockCheck.simps)
qed

text \<open>
  C6, at the failing input: both lines ask for 10 of product 1, whose stock is 5. The one
  distinct id resolves and the stock check on the product read would name product A, but
  \<open>createOrder\<close> has rejected the request as not found before it.
\<close>

theorem createOrder_repeated_insufficient:
  "createOrder exCaller exRepeatedBig exStore =
     (Inl (AppError 400 ''One or more products not found''), exStore) \<and>
   product_findMany [1, 1] exStore = [exA] \<and>
   stockCheck [exA] [\<lparr>productId = 1, quantity = 10\<rparr>, \<lparr>productId = 1, quantity = 10\<rparr>] =
     Some (AppError 400 ''Not enough stock for product A'')"
  by (simp add: exRepeatedBig_def ex_defs eval_defs)

section \<open>createOrder: the price snapshot\<close>

lemma tx_bind_reprice:
  assumes "\<And>s. m (reprice g s) = (fst (m s), reprice g (snd (m s)))"
    and "\<And>x s. f x (reprice g s) = (fst (f x s), reprice g (snd (f x s)))"
  shows "tx_bind m f (reprice g s) = (fst (tx_bind m f s), reprice g (snd (tx_bind m f s)))"
proof -
  obtain res s2 where ms: "m s = (res, s2)" by (cases "m s")
  with assms(1) [of s] have mr: "m (reprice g s) = (res, reprice g s2)" by simp
  show ?thesis
  proof (cases res)
    case (Inl e)
    with ms mr show ?thesis by (simp add: tx_bind_def)
  next
    case (Inr x)
    with ms mr assms(2) [of x s2] show ?thesis by (simp add: tx_bind_def)
  qed
qed

lemma tx_return_reprice:
  "tx_return x (reprice g s) = (fst (tx_return x s), reprice g (snd (tx_return x s)))"
  by (simp add: tx_return_def)

lemma tx_throw_reprice:
  "tx_throw e (reprice g s) = (fst (tx_throw e s), reprice g (snd (tx_throw e s)))"
  by (simp add: tx_throw_def)

lemma order_create_reprice:
  "order_create uid (reprice g s) = (fst (order_create uid s), reprice g (snd (order_create uid s)))"
  by (simp add: order_create_def reprice_def Let_def)

lemma product_update_decrement_reprice:
  "product_update_decrement pid n (reprice g s) =
     (fst (product_update_decrement pid n s), reprice g (snd (product_update_decrement pid n s)))"
proof -
  have ids: "map p_id (products (reprice g s)) = map p_id (products s)"
    by (simp add: reprice_def comp_def)
  show ?thesis
    by (cases "pid \<in> set (map p_id (products s))")
      (simp_all add: product_update_decrement_def ids, simp_all add: reprice_def comp_def)
qed

lemma orderItem_create_reprice:
  "orderItem_create oid pid q up tp (reprice g s) =
     (fst (orderItem_create oid pid q up tp s), reprice g (snd (orderItem_create oid pid q up tp s)))"
  by (simp add: orderItem_create_def reprice_def Let_def)

lemma order_update_increment_reprice:
  "order_update_increment oid n (reprice g s) =
     (fst (order_update_increment oid n s), reprice g (snd (order_update_increment oid n s)))"
  by (cases "find (\<lambda>ord. o_id ord = oid) (orders s)")
    (simp_all add: order_update_increment_def reprice_def)

lemma user_update_increment_reprice:
  "user_update_increment uid n (reprice g s) =
     (fst (user_update_increment uid n s), reprice g (snd (user_update_increment uid n s)))"
  by (cases "find (\<lambda>u. u_id u = uid) (users s)")
    (simp_all add: user_update_increment_def reprice_def)

lemma createOrderItems_reprice:
  "createOrderItems oid prods items (reprice g s) =
     (fst (createOrderItems oid prods items s), reprice g (snd (createOrderItems oid prods items s)))"
proof (induction items arbitrary: s)
  case Nil
  show ?case by (simp add: tx_return_reprice)
next
  case (Cons item rest)
  show ?case
  proof (cases "find (\<lambda>p. p_id p = productId item) prods")
    case None
    then show ?thesis by (simp add: createOrderItems.simps(2) tx_throw_reprice)
  next
    case (Some product)
    have "tx_bind (product_update_decrement (p_id product) (quantity item)) (\<lambda>_.
          tx_bind (orderItem_create oid (p_id product) (quantity item) (p_price product)
                     (p_price product * quantity item)) (\<lambda>row.
          tx_bind (createOrderItems oid prods rest) (\<lambda>rows.
          tx_return (row # rows)))) (reprice g s)
        = (fst (tx_bind (product_update_decrement (p_id product) (quantity item)) (\<lambda>_.
          tx_bind (orderItem_create oid (p_id product) (quantity item) (p_price product)
                     (p_price product * quantity item)) (\<lambda>row.
          tx_bind (createOrderItems oid prods rest) (\<lambda>rows.
          tx_return (row # rows)))) s),
           reprice g (snd (tx_bind (product_update_decrement (p_id product) (quantity item)) (\<lambda>_.
          tx_bind (orderItem_create oid (p_id product) (quantity item) (p_price product)
                     (p_price product * quantity item)) (\<lambda>row.
          tx_bind (createOrderItems oid prods rest) (\<lambda>rows.
          tx_return (row # rows)))) s)))"
      by (intro tx_bind_reprice product_update_decrement_reprice orderItem_create_reprice
          Cons.IH tx_return_reprice)
    with Some show ?thesis by (simp add: createOrderItems.simps(2))
  qed
qed

lemma orderTransaction_reprice:
  "orderTransaction user items prods (reprice g s) =
     (fst (orderTransaction user items prods s), reprice g (snd (orderTransaction user items prods s)))"
  unfolding orderTransaction_def Let_def
  by (intro tx_bind_reprice order_create_reprice createOrderItems_reprice
      order_update_increment_reprice user_update_increment_reprice tx_return_reprice)

lemma createOrder_at_reprice:
  assumes "createOrder_at user body s0 s1 = (Inr r, s')"
  shows "createOrder_at user body s0 (reprice g s1) = (Inr r, reprice g s')"
proof -
  from createOrder_at_Inr [OF assms] obtain items prods where
    v: "validateOrder body s0 = Inr (items, prods)" and
    t: "orderTransaction user items prods s1 = (Inr r, s')" by blast
  from orderTransaction_reprice [of user items prods g s1] t
  have "orderTransaction user items prods (reprice g s1) = (Inr r, reprice g s')" by simp
  with v show ?thesis by (simp add: createOrder_at_def transaction_def)
qed

lemma lineRow_snapshot:
  assumes "lineRow oid prods item row" and "set prods \<subseteq> set ps"
  shows "\<exists>p\<in>set ps. p_id p = oi_productId row \<and> oi_unitPrice row = p_price p \<and>
           oi_totalPrice row = p_price p * oi_quantity row"
proof -
  from assms(1) obtain p where f: "find (\<lambda>p. p_id p = productId item) prods = Some p"
    by (cases "find (\<lambda>p. p_id p = productId item) prods") (simp_all add: lineRow_def)
  from find_SomeD [OF f] have "p_id p = productId item" "p \<in> set prods" by simp_all
  with assms f show ?thesis by (auto simp: lineRow_def)
qed

text \<open>
  C7. Every OrderItem a successful \<open>createOrder\<close> creates carries the price its product
  had in the store read at validation, and that price times the quantity. Whatever the
  live prices have become at transaction entry, the same order and items are created; a
  later change of the live prices leaves the stored rows as they are.
\<close>

theorem createOrder_price_snapshot:
  assumes "createOrder_at user body s0 s1 = (Inr r, s')"
  shows "(\<forall>row\<in>set (res_items r). \<exists>p\<in>set (products s0).
            p_id p = oi_productId row \<and> oi_unitPrice row = p_price p \<and>
            oi_totalPrice row = p_price p * oi_quantity row) \<and>
         createOrder_at user body s0 (reprice g s1) = (Inr r, reprice g s') \<and>
         orderItems s' = orderItems s1 @ res_items r \<and>
         orderItems (reprice g s') = orderItems s'"
proof -
  from createOrder_at_Inr [OF assms] obtain items prods where
    v: "validateOrder body s0 = Inr (items, prods)" and
    t: "orderTransaction user items prods s1 = (Inr r, s')" by blast
  from validateOrder_Inr [OF v] have "prods = product_findMany (map productId items) s0" by blast
  then have sub: "set prods \<subseteq> set (products s0)" by (auto simp: product_findMany_def)
  note f = orderTransaction_Inr [OF t]
  have rows: "\<forall>row\<in>set (res_items r). \<exists>p\<in>set (products s0).
            p_id p = oi_productId row \<and> oi_unitPrice row = p_price p \<and>
            oi_totalPrice row = p_price p * oi_quantity row"
  proof
    fix row assume "row \<in> set (res_items r)"
    with list_all2_set2 [OF f(3)] obtain item where
      "lineRow (nextId (map o_id (orders s1))) prods item row" by blast
    from lineRow_snapshot [OF this sub]
    show "\<exists>p\<in>set (products s0).
            p_id p = oi_productId row \<and> oi_unitPrice row = p_price p \<and>
            oi_totalPrice row = p_price p * oi_quantity row" .
  qed
  have "orderItems (reprice g s') = orderItems s'" by (simp add: reprice_def)
  with rows createOrder_at_reprice [OF assms, of g] f(5) show ?thesis by simp
qed

theorem createOrder_price_snapshot_witness:
  "createOrder_at exCaller exBody exStore exStore = (Inr exResult, exStoreAfter) \<and>
   map p_price (products exStore) = [600, 1500] \<and>
   map p_price (products (reprice exDoubled exStore)) = [1200, 3000] \<and>
   createOrder_at exCaller exBody exStore (reprice exDoubled exStore) =
     (Inr exResult, reprice exDoubled exStoreAfter) \<and>
   map oi_unitPrice (res_items exResult) = [600, 1500] \<and>
   map oi_totalPrice (res_items exResult) = [1200, 1500] \<and>
   orderItems (reprice exDoubled exStoreAfter) = exRows"
  using createOrder_price_snapshot [OF ex_createOrder, of exDoubled] ex_createOrder
  by (simp add: reprice_def exDoubled_def ex_defs)

section \<open>transferPoint: guards and conservation\<close>

lemmas transfer_defs = transferPoint_at_def transferPointSchema_def
  zIntPositive_def user_findUnique_def transaction_def tx_bind_def tx_return_def
  user_update_decrement_def user_update_increment_def exAlice_def exBob_def exUsers_def
  exSender_def exTransfer_def

lemma zIntPositive_Some:
  "zIntPositive v = Some n \<Longrightarrow> v = JNumber (of_int n) \<and> 0 < n"
  by (cases v) (auto simp: zIntPositive_def split: if_splits)

lemma transferPointSchema_Some:
  assumes "transferPointSchema body = Some parse"
  shows "raw_receiverId body = JNumber (of_int (receiverId parse)) \<and> 0 < receiverId parse \<and>
         raw_amount body = JNumber (of_int (amount parse)) \<and> 0 < amount parse"
proof -
  from assms obtain rid where rid: "zIntPositive (raw_receiverId body) = Some rid"
    by (cases "zIntPositive (raw_receiverId body)") (simp_all add: transferPointSchema_def)
  from assms rid obtain a where a: "zIntPositive (raw_amount body) = Some a"
    by (cases "zIntPositive (raw_amount body)") (simp_all add: transferPointSchema_def)
  from assms rid a have "parse = \<lparr>receiverId = rid, amount = a\<rparr>"
    by (simp add: transferPointSchema_def)
  with zIntPositive_Some [OF rid] zIntPositive_Some [OF a] show ?thesis by simp
qed

text \<open>The two updates of the transfer, as the transaction runs them.\<close>

lemma transfer_body:
  assumes "sid \<noteq> rid"
  shows "tx_bind (user_update_decrement sid n) (\<lambda>updatedSender.
         tx_bind (user_update_increment rid n) (\<lambda>updatedReceiver.
         tx_return (updatedSender, updatedReceiver))) s =
     (case find (\<lambda>u. u_id u = sid) (users s) of
        None \<Rightarrow> (Inl RecordNotFound, s)
      | Some snd1 \<Rightarrow>
          (case find (\<lambda>u. u_id u = rid) (users s) of
             None \<Rightarrow> (Inl RecordNotFound,
                       s\<lparr>users := map (\<lambda>x. if u_id x = sid then x\<lparr>u_point := u_point x - n\<rparr> else x) (users s)\<rparr>)
           | Some rcv1 \<Rightarrow>
               (Inr (snd1\<lparr>u_point := u_point snd1 - n\<rparr>, rcv1\<lparr>u_point := u_point rcv1 + n\<rparr>),
                s\<lparr>users := map (\<lambda>x. if u_id x = rid then x\<lparr>u_point := u_point x + n\<rparr> else x)
                             (map (\<lambda>x. if u_id x = sid then x\<lparr>u_point := u_point x - n\<rparr> else x) (users s))\<rparr>)))"
proof -
  have other: "find (\<lambda>u. u_id u = rid)
                 (map (\<lambda>x. if u_id x = sid then x\<lparr>u_point := u_point x - n\<rparr> else x) (users s))
               = find (\<lambda>u. u_id u = rid) (users s)"
    using assms find_map_other_user [of rid sid "\<lambda>x. u_point x - n" "users s"] by simp
  show ?thesis
    by (simp add: tx_bind_def user_update_decrement_def user_update_increment_def tx_return_def
        other split: option.splits)
qed

lemma transferPoint_at_cases:
  "transferPoint_at user body s0 s1 = (res, s') \<Longrightarrow>
     (\<exists>e. res = Inl e \<and> s' = s1) \<or>
     (\<exists>parse sender receiver snd1 rcv1.
        transferPointSchema body = Some parse \<and> 0 < amount parse \<and>
        user_findUnique (jwt_id user) s0 = Some sender \<and>
        user_findUnique (receiverId parse) s0 = Some receiver \<and>
        jwt_id user \<noteq> receiverId parse \<and> amount parse \<le> u_point sender \<and>
        user_findUnique (jwt_id user) s1 = Some snd1 \<and>
        user_findUnique (receiverId parse) s1 = Some rcv1 \<and>
        res = Inr (snd1\<lparr>u_point := u_point snd1 - amount parse\<rparr>,
                   rcv1\<lparr>u_point := u_point rcv1 + amount parse\<rparr>) \<and>
        s' = s1\<lparr>users :=
               map (\<lambda>x. if u_id x = receiverId parse then x\<lparr>u_point := u_point x + amount parse\<rparr> else x)
                 (map (\<lambda>x. if u_id x = jwt_id user then x\<lparr>u_point := u_point x - amount parse\<rparr> else x)
                    (users s1))\<rparr>)"
proof (cases "transferPointSchema body")
  case None
  then show "transferPoint_at user body s0 s1 = (res, s') \<Longrightarrow> ?thesis"
    by (auto simp: transferPoint_at_def)
next
  case (Some parse)
  assume run: "transferPoint_at user body s0 s1 = (res, s')"
  show ?thesis
  proof (cases "amount parse \<le> 0")
    case True
    with Some run show ?thesis by (auto simp: transferPoint_at_def)
  next
    case pos: False
    show ?thesis
    proof (cases "user_findUnique (jwt_id user) s0")
      case None
      with Some pos run show ?thesis by (auto simp: transferPoint_at_def)
    next
      case sender: (Some sender)
      from find_SomeD [OF sender [unfolded user_findUnique_def]]
      have sid: "u_id sender = jwt_id user" by simp
      show ?thesis
      proof (cases "user_findUnique (receiverId parse) s0")
        case None
        with Some pos sender run show ?thesis by (auto simp: transferPoint_at_def)
      next
        case receiver: (Some receiver)
        from find_SomeD [OF receiver [unfolded user_findUnique_def]]
        have rid: "u_id receiver = receiverId parse" by simp
        have eq: "transferPoint_at user body s0 s1 =
            (if jwt_id user = receiverId parse
             then (Inl (AppError 400 ''Can't self transfer point''), s1)
             else if u_point sender < amount parse
             then (Inl (AppError 400 ''Insufficient points''), s1)
             else transaction
                  (tx_bind (user_update_decrement (jwt_id user) (amount parse)) (\<lambda>updatedSender.
                   tx_bind (user_update_increment (receiverId parse) (amount parse)) (\<lambda>updatedReceiver.
                   tx_return (updatedSender, updatedReceiver)))) s1)"
          using Some pos sender receiver sid rid by (simp add: transferPoint_at_def)
        show ?thesis
        proof (cases "jwt_id user = receiverId parse \<or> u_point sender < amount parse")
          case True
          with eq run have "res = Inl (AppError 400 ''Can't self transfer point'') \<and> s' = s1 \<or>
                            res = Inl (AppError 400 ''Insufficient points'') \<and> s' = s1"
            by (cases "jwt_id user = receiverId parse") auto
          then show ?thesis by blast
        next
          case False
          then have ne: "jwt_id user \<noteq> receiverId parse" and le: "amount parse \<le> u_point sender"
            by simp_all
          from eq ne le run
          have tr: "transaction
                  (tx_bind (user_update_decrement (jwt_id user) (amount parse)) (\<lambda>updatedSender.
                   tx_bind (user_update_increment (receiverId parse) (amount parse)) (\<lambda>updatedReceiver.
                   tx_return (updatedSender, updatedReceiver)))) s1 = (res, s')"
            by simp
          show ?thesis
          proof (cases "find (\<lambda>u. u_id u = jwt_id user) (users s1)")
            case None
            with tr transfer_body [OF ne, of "amount parse" s1] show ?thesis
              by (auto simp: transaction_def)
          next
            case snd1: (Some snd1)
            show ?thesis
            proof (cases "find (\<lambda>u. u_id u = receiverId parse) (users s1)")
              case None
              with snd1 tr transfer_body [OF ne, of "amount parse" s1] show ?thesis
                by (auto simp: transaction_def)
            next
              case rcv1: (Some rcv1)
              from snd1 rcv1 tr transfer_body [OF ne, of "amount parse" s1]
              have "res = Inr (snd1\<lparr>u_point := u_point snd1 - amount parse\<rparr>,
                   rcv1\<lparr>u_point := u_point rcv1 + amount parse\<rparr>)"
                and "s' = s1\<lparr>users :=
               map (\<lambda>x. if u_id x = receiverId parse then x\<lparr>u_point := u_point x + amount parse\<rparr> else x)
                 (map (\<lambda>x. if u_id x = jwt_id user then x\<lparr>u_point := u_point x - amount parse\<rparr> else x)
                    (users s1))\<rparr>"
                by (simp_all add: transaction_def)
              with Some pos sender receiver ne le snd1 rcv1 show ?thesis
                by (auto simp: user_findUnique_def)
            qed
          qed
        qed
      qed
    qed
  qed
qed

lemma transfer_lookup:
  assumes ne: "sid \<noteq> rid"
    and s: "find (\<lambda>u. u_id u = sid) us = Some snd1"
    and r: "find (\<lambda>u. u_id u = rid) us = Some rcv1"
  shows "find (\<lambda>u. u_id u = sid)
           (map (\<lambda>x. if u_id x = rid then x\<lparr>u_point := u_point x + n\<rparr> else x)
              (map (\<lambda>x. if u_id x = sid then x\<lparr>u_point := u_point x - n\<rparr> else x) us))
         = Some (snd1\<lparr>u_point := u_point snd1 - n\<rparr>) \<and>
         find (\<lambda>u. u_id u = rid)
           (map (\<lambda>x. if u_id x = rid then x\<lparr>u_point := u_point x + n\<rparr> else x)
              (map (\<lambda>x. if u_id x = sid then x\<lparr>u_point := u_point x - n\<rparr> else x) us))
         = Some (rcv1\<lparr>u_point := u_point rcv1 + n\<rparr>)"
proof -
  let ?debit = "map (\<lambda>x. if u_id x = sid then x\<lparr>u_point := u_point x - n\<rparr> else x) us"
  have a: "find (\<lambda>u. u_id u = sid) ?debit = Some (snd1\<lparr>u_point := u_point snd1 - n\<rparr>)"
    using find_map_update_user [of sid "\<lambda>x. u_point x - n" us] s by simp
  have b: "find (\<lambda>u. u_id u = rid) ?debit = Some rcv1"
    using find_map_other_user [of rid sid "\<lambda>x. u_point x - n" us] ne r by simp
  have c: "find (\<lambda>u. u_id u = sid)
             (map (\<lambda>x. if u_id x = rid then x\<lparr>u_point := u_point x + n\<rparr> else x) ?debit)
           = find (\<lambda>u. u_id u = sid) ?debit"
    using find_map_other_user [of sid rid "\<lambda>x. u_point x + n" ?debit] ne by simp
  have d: "find (\<lambda>u. u_id u = rid)
             (map (\<lambda>x. if u_id x = rid then x\<lparr>u_point := u_point x + n\<rparr> else x) ?debit)
           = map_option (\<lambda>x. x\<lparr>u_point := u_point x + n\<rparr>) (find (\<lambda>u. u_id u = rid) ?debit)"
    using find_map_update_user [of rid "\<lambda>x. u_point x + n" ?debit] by simp
  from a b c d show ?thesis by simp
qed

text \<open>
  C8. A transfer succeeds only with an amount that is a positive integer, a receiver other
  than the sender, and a sender's balance (as read) of at least the amount. A successful
  transfer returns the sender's row with the amount taken and the receiver's row with the
  amount added, and both are the rows of the store after it. Every rejected transfer
  leaves the store as it was.
\<close>

theorem transferPoint_guarded:
  "(\<forall>sr rr s'. transferPoint_at user body s0 s1 = (Inr (sr, rr), s') \<longrightarrow>
      (\<exists>rid amt sender snd1 rcv1.
         raw_receiverId body = JNumber (of_int rid) \<and>
         raw_amount body = JNumber (of_int amt) \<and> 0 < amt \<and>
         jwt_id user \<noteq> rid \<and>
         user_findUnique (jwt_id user) s0 = Some sender \<and> amt \<le> u_point sender \<and>
         user_findUnique (jwt_id user) s1 = Some snd1 \<and>
         user_findUnique rid s1 = Some rcv1 \<and>
         sr = snd1\<lparr>u_point := u_point snd1 - amt\<rparr> \<and>
         rr = rcv1\<lparr>u_point := u_point rcv1 + amt\<rparr> \<and>
         user_findUnique (jwt_id user) s' = Some sr \<and>
         user_findUnique rid s' = Some rr)) \<and>
   (\<forall>e s'. transferPoint_at user body s0 s1 = (Inl e, s') \<longrightarrow> s' = s1)"
proof (intro conjI allI impI)
  fix sr rr s'
  assume run: "transferPoint_at user body s0 s1 = (Inr (sr, rr), s')"
  from transferPoint_at_cases [OF run] obtain parse sender receiver snd1 rcv1 where
    p: "transferPointSchema body = Some parse" and pos: "0 < amount parse" and
    sender: "user_findUnique (jwt_id user) s0 = Some sender" and
    ne: "jwt_id user \<noteq> receiverId parse" and le: "amount parse \<le> u_point sender" and
    snd1: "user_findUnique (jwt_id user) s1 = Some snd1" and
    rcv1: "user_findUnique (receiverId parse) s1 = Some rcv1" and
    res: "Inr (sr, rr) = Inr (snd1\<lparr>u_point := u_point snd1 - amount parse\<rparr>,
                   rcv1\<lparr>u_point := u_point rcv1 + amount parse\<rparr>)" and
    s': "s' = s1\<lparr>users :=
               map (\<lambda>x. if u_id x = receiverId parse then x\<lparr>u_point := u_point x + amount parse\<rparr> else x)
                 (map (\<lambda>x. if u_id x = jwt_id user then x\<lparr>u_point := u_point x - amount parse\<rparr> else x)
                    (users s1))\<rparr>"
    by blast
  from res have sr: "sr = snd1\<lparr>u_point := u_point snd1 - amount parse\<rparr>"
    and rr: "rr = rcv1\<lparr>u_point := u_point rcv1 + amount parse\<rparr>" by simp_all
  note body = transferPointSchema_Some [OF p]
  from transfer_lookup [OF ne snd1 [unfolded user_findUnique_def] rcv1 [unfolded user_findUnique_def],
      of "amount parse"]
  have after: "user_findUnique (jwt_id user) s' = Some sr" "user_findUnique (receiverId parse) s' = Some rr"
    by (simp_all add: user_findUnique_def s' sr rr)
  from body pos ne sender le snd1 rcv1 sr rr after
  show "\<exists>rid amt sender snd1 rcv1.
         raw_receiverId body = JNumber (of_int rid) \<and>
         raw_amount body = JNumber (of_int amt) \<and> 0 < amt \<and>
         jwt_id user \<noteq> rid \<and>
         user_findUnique (jwt_id user) s0 = Some sender \<and> amt \<le> u_point sender \<and>
         user_findUnique (jwt_id user) s1 = Some snd1 \<and>
         user_findUnique rid s1 = Some rcv1 \<and>
         sr = snd1\<lparr>u_point := u_point snd1 - amt\<rparr> \<and>
         rr = rcv1\<lparr>u_point := u_point rcv1 + amt\<rparr> \<and>
         user_findUnique (jwt_id user) s' = Some sr \<and>
         user_findUnique rid s' = Some rr"
    by blast
next
  fix e s'
  assume "transferPoint_at user body s0 s1 = (Inl e, s')"
  from transferPoint_at_cases [OF this] show "s' = s1" by auto
qed

lemma ex_transfer:
  "transferPoint_at exSender (exTransfer 2 4) exUsers exUsers =
     (Inr (\<lparr>u_id = 1, u_point = 6\<rparr>, \<lparr>u_id = 2, u_point = 4\<rparr>),
      exUsers\<lparr>users := [\<lparr>u_id = 1, u_point = 6\<rparr>, \<lparr>u_id = 2, u_point = 4\<rparr>]\<rparr>)"
  by (simp add: transfer_defs)

lemma ex_transfer_self:
  "transferPoint_at exSender (exTransfer 1 4) exUsers exUsers =
     (Inl (AppError 400 ''Can't self transfer point''), exUsers)"
  by (simp add: transfer_defs)

lemma ex_transfer_excess:
  "transferPoint_at exSender (exTransfer 2 11) exUsers exUsers =
     (Inl (AppError 400 ''Insufficient points''), exUsers)"
  by (simp add: transfer_defs)

lemma ex_transfer_fraction:
  "transferPoint_at exSender (exTransfer 2 (1 / 2)) exUsers exUsers =
     (Inl (AppError 400 ''Error in validation''), exUsers)"
proof -
  have "\<lfloor>1 / 2 :: rat\<rfloor> = 0" by (simp add: floor_eq_iff)
  then have "zIntPositive (JNumber (1 / 2)) = None" by (simp add: zIntPositive_def)
  moreover have "zIntPositive (JNumber 2) = Some 2" by (simp add: zIntPositive_def)
  ultimately have "transferPointSchema (exTransfer 2 (1 / 2)) = None"
    by (simp add: transferPointSchema_def exTransfer_def)
  then show ?thesis by (simp add: transferPoint_at_def)
qed

theorem transferPoint_guarded_witness:
  "transferPoint_at exSender (exTransfer 2 4) exUsers exUsers =
     (Inr (\<lparr>u_id = 1, u_point = 6\<rparr>, \<lparr>u_id = 2, u_point = 4\<rparr>),
      exUsers\<lparr>users := [\<lparr>u_id = 1, u_point = 6\<rparr>, \<lparr>u_id = 2, u_point = 4\<rparr>]\<rparr>) \<and>
   user_findUnique 1 exUsers = Some \<lparr>u_id = 1, u_point = 10\<rparr> \<and>
   user_findUnique 2 exUsers = Some \<lparr>u_id = 2, u_point = 0\<rparr> \<and>
   transferPoint_at exSender (exTransfer 1 4) exUsers exUsers =
     (Inl (AppError 400 ''Can't self transfer point''), exUsers) \<and>
   transferPoint_at exSender (exTransfer 2 11) exUsers exUsers =
     (Inl (AppError 400 ''Insufficient points''), exUsers) \<and>
   transferPoint_at exSender (exTransfer 2 (1 / 2)) exUsers exUsers =
     (Inl (AppError 400 ''Error in validation''), exUsers)"
  using transferPoint_guarded [of exSender "exTransfer 2 4" exUsers exUsers]
    transferPoint_guarded [of exSender "exTransfer 1 4" exUsers exUsers]
    ex_transfer ex_transfer_self ex_transfer_excess ex_transfer_fraction
  by (simp add: user_findUnique_def exUsers_def exAlice_def exBob_def)

text \<open>
  C9, amended. A successful transfer takes exactly the amount from the sender's balance
  at transaction entry and adds exactly the amount to the receiver's: the sum of the two
  balances is unchanged. The guard compares the amount with the balance read before the
  transaction; the sender's balance stays at or above zero when the balance at transaction
  entry is not below the balance read.
\<close>

theorem transferPoint_conserves:
  assumes "transferPoint_at user body s0 s1 = (Inr (sr, rr), s')"
  shows "\<exists>rid amt sender snd1 rcv1.
           raw_receiverId body = JNumber (of_int rid) \<and>
           raw_amount body = JNumber (of_int amt) \<and>
           user_findUnique (jwt_id user) s0 = Some sender \<and> amt \<le> u_point sender \<and>
           user_findUnique (jwt_id user) s1 = Some snd1 \<and>
           user_findUnique rid s1 = Some rcv1 \<and>
           user_findUnique (jwt_id user) s' = Some sr \<and>
           user_findUnique rid s' = Some rr \<and>
           u_point sr = u_point snd1 - amt \<and>
           u_point rr = u_point rcv1 + amt \<and>
           u_point sr + u_point rr = u_point snd1 + u_point rcv1 \<and>
           (u_point sender \<le> u_point snd1 \<longrightarrow> 0 \<le> u_point sr)"
proof -
  from transferPoint_at_cases [OF assms] obtain parse sender receiver snd1 rcv1 where
    p: "transferPointSchema body = Some parse" and
    sender: "user_findUnique (jwt_id user) s0 = Some sender" and
    ne: "jwt_id user \<noteq> receiverId parse" and le: "amount parse \<le> u_point sender" and
    snd1: "user_findUnique (jwt_id user) s1 = Some snd1" and
    rcv1: "user_findUnique (receiverId parse) s1 = Some rcv1" and
    res: "Inr (sr, rr) = Inr (snd1\<lparr>u_point := u_point snd1 - amount parse\<rparr>,
                   rcv1\<lparr>u_point := u_point rcv1 + amount parse\<rparr>)" and
    s': "s' = s1\<lparr>users :=
               map (\<lambda>x. if u_id x = receiverId parse then x\<lparr>u_point := u_point x + amount parse\<rparr> else x)
                 (map (\<lambda>x. if u_id x = jwt_id user then x\<lparr>u_point := u_point x - amount parse\<rparr> else x)
                    (users s1))\<rparr>"
    by blast
  from res have sr: "sr = snd1\<lparr>u_point := u_point snd1 - amount parse\<rparr>"
    and rr: "rr = rcv1\<lparr>u_point := u_point rcv1 + amount parse\<rparr>" by simp_all
  note body = transferPointSchema_Some [OF p]
  from transfer_lookup [OF ne snd1 [unfolded user_findUnique_def]
      rcv1 [unfolded user_findUnique_def], of "amount parse"]
  have after: "user_findUnique (jwt_id user) s' = Some sr" "user_findUnique (receiverId parse) s' = Some rr"
    by (simp_all add: user_findUnique_def s' sr rr)
  have pts: "u_point sr = u_point snd1 - amount parse" "u_point rr = u_point rcv1 + amount parse"
    by (simp_all add: sr rr)
  then have sum: "u_point sr + u_point rr = u_point snd1 + u_point rcv1" by simp
  have nn: "u_point sender \<le> u_point snd1 \<longrightarrow> 0 \<le> u_point sr" using le pts by simp
  from body sender le snd1 rcv1 after pts sum nn show ?thesis by blast
qed

lemma ex_transfer_low:
  "transferPoint_at exSender (exTransfer 2 4) exUsers exUsersLow =
     (Inr (\<lparr>u_id = 1, u_point = - 1\<rparr>, \<lparr>u_id = 2, u_point = 4\<rparr>),
      exUsers\<lparr>users := [\<lparr>u_id = 1, u_point = - 1\<rparr>, \<lparr>u_id = 2, u_point = 4\<rparr>]\<rparr>)"
  by (simp add: exUsersLow_def transfer_defs)

theorem transferPoint_conserves_witness:
  "transferPoint_at exSender (exTransfer 2 4) exUsers exUsers =
     (Inr (\<lparr>u_id = 1, u_point = 6\<rparr>, \<lparr>u_id = 2, u_point = 4\<rparr>),
      exUsers\<lparr>users := [\<lparr>u_id = 1, u_point = 6\<rparr>, \<lparr>u_id = 2, u_point = 4\<rparr>]\<rparr>) \<and>
   map u_point (users exUsers) = [10, 0] \<and>
   (6::int) + 4 = 10 + 0 \<and> (0::int) \<le> 6 \<and>
   transferPoint_at exSender (exTransfer 2 4) exUsers exUsersLow =
     (Inr (\<lparr>u_id = 1, u_point = - 1\<rparr>, \<lparr>u_id = 2, u_point = 4\<rparr>),
      exUsers\<lparr>users := [\<lparr>u_id = 1, u_point = - 1\<rparr>, \<lparr>u_id = 2, u_point = 4\<rparr>]\<rparr>) \<and>
   map u_point (users exUsersLow) = [3, 0] \<and>
   (- 1::int) + 4 = 3 + 0"
  using transferPoint_conserves [OF ex_transfer] transferPoint_conserves [OF ex_transfer_low]
    ex_transfer ex_transfer_low
  by (simp add: exUsersLow_def exUsers_def exAlice_def exBob_def)

text \<open>
  C9 as stated fails: the balance read is 10, the balance at transaction entry is 3
  (another request took 7 in between), and the transfer of 4 is committed with the
  sender at -1.
\<close>

theorem transferPoint_conserves_counterexample:
  "transferPoint_at exSender (exTransfer 2 4) exUsers exUsersLow =
     (Inr (\<lparr>u_id = 1, u_point = - 1\<rparr>, \<lparr>u_id = 2, u_point = 4\<rparr>),
      exUsers\<lparr>users := [\<lparr>u_id = 1, u_point = - 1\<rparr>, \<lparr>u_id = 2, u_point = 4\<rparr>]\<rparr>) \<and>
   user_findUnique 1 exUsers = Some \<lparr>u_id = 1, u_point = 10\<rparr> \<and>
   user_findUnique 1 exUsersLow = Some \<lparr>u_id = 1, u_point = 3\<rparr> \<and>
   user_findUnique 1 (snd (transferPoint_at exSender (exTransfer 2 4) exUsers exUsersLow)) =
     Some \<lparr>u_id = 1, u_point = - 1\<rparr>"
  by (simp add: exUsersLow_def transfer_defs)

section \<open>getOrders: the caller's own orders\<close>

lemma stringToNumUndefined_id: "stringToNumUndefined v = v"
  by (cases v) (simp_all add: stringToNumUndefined_def)

lemma set_applyOrderBy: "set (applyOrderBy ob rows) = set rows"
proof (cases ob)
  case (ByTotalPrice d)
  then show ?thesis by (cases d) simp_all
next
  case (ByCreatedAt d)
  then show ?thesis by (cases d) simp_all
qed

lemma buildOrderWhere_user:
  "orderMatches s (buildOrderWhere (Some uid) minPrice maxPrice) ord \<longleftrightarrow>
     o_userId ord = uid \<and> inRange (minPrice, maxPrice) (o_totalPrice ord)"
  by (cases minPrice; cases maxPrice) (simp_all add: buildOrderWhere_def inRange_def)

lemma buildOrderWhere_user_fun:
  "orderMatches s (buildOrderWhere (Some uid) minPrice maxPrice) =
     (\<lambda>ord. o_userId ord = uid \<and> inRange (minPrice, maxPrice) (o_totalPrice ord))"
  by (rule ext) (rule buildOrderWhere_user)

lemma order_findMany_subset:
  "row \<in> set (order_findMany wh ob tk sk s) \<Longrightarrow>
     fst row \<in> set (orders s) \<and> orderMatches s wh (fst row)"
proof -
  assume "row \<in> set (order_findMany wh ob tk sk s)"
  then have "fst row \<in> set (take (nat tk) (drop (nat sk)
               (applyOrderBy ob (filter (orderMatches s wh) (orders s)))))"
    by (auto simp: order_findMany_def)
  then have "fst row \<in> set (applyOrderBy ob (filter (orderMatches s wh) (orders s)))"
    by (meson in_set_takeD in_set_dropD)
  then show ?thesis by (simp add: set_applyOrderBy)
qed

lemma getOrders_user:
  assumes "jwt_role user \<noteq> ADMIN"
  shows "m_data (getOrders user q s) =
           order_findMany (buildOrderWhere (Some (jwt_id user)) (q_minPrice q) (q_maxPrice q))
             (buildOrderOrderBy (q_sortBy q)) (fst (paginationSchema q))
             ((snd (paginationSchema q) - 1) * fst (paginationSchema q)) s"
    and "m_total (getOrders user q s) =
           order_count (buildOrderWhere (Some (jwt_id user)) (q_minPrice q) (q_maxPrice q)) s"
  using assms
  by (simp_all add: getOrders_def Let_def paginationResponse_def stringToNumUndefined_id
      split: prod.splits)

text \<open>
  C10. For a caller who is not an ADMIN, whatever the pagination, the sorting and the
  price bounds, every order \<open>getOrders\<close> returns is an order of the store owned by the
  caller, and the total counts exactly the caller's orders within the price bounds; that
  count is never above the count of all the caller's orders, which is the total without
  price bounds.
\<close>

theorem getOrders_own_orders:
  assumes "jwt_role user \<noteq> ADMIN"
  shows "(\<forall>row\<in>set (m_data (getOrders user q s)).
            fst row \<in> set (orders s) \<and> o_userId (fst row) = jwt_id user \<and>
            inRange (q_minPrice q, q_maxPrice q) (o_totalPrice (fst row))) \<and>
         m_total (getOrders user q s) =
           int (length (filter (\<lambda>ord. o_userId ord = jwt_id user \<and>
                                  inRange (q_minPrice q, q_maxPrice q) (o_totalPrice ord)) (orders s))) \<and>
         m_total (getOrders user (q\<lparr>q_minPrice := None, q_maxPrice := None\<rparr>) s) =
           int (length (filter (\<lambda>ord. o_userId ord = jwt_id user) (orders s))) \<and>
         m_total (getOrders user q s) \<le>
           m_total (getOrders user (q\<lparr>q_minPrice := None, q_maxPrice := None\<rparr>) s)"
proof -
  let ?own = "\<lambda>ord. o_userId ord = jwt_id user"
  let ?sel = "\<lambda>ord. o_userId ord = jwt_id user \<and>
                inRange (q_minPrice q, q_maxPrice q) (o_totalPrice ord)"
  have rows: "\<forall>row\<in>set (m_data (getOrders user q s)).
            fst row \<in> set (orders s) \<and> o_userId (fst row) = jwt_id user \<and>
            inRange (q_minPrice q, q_maxPrice q) (o_totalPrice (fst row))"
  proof
    fix row assume "row \<in> set (m_data (getOrders user q s))"
    then have "row \<in> set (order_findMany
                 (buildOrderWhere (Some (jwt_id user)) (q_minPrice q) (q_maxPrice q))
                 (buildOrderOrderBy (q_sortBy q)) (fst (paginationSchema q))
                 ((snd (paginationSchema q) - 1) * fst (paginationSchema q)) s)"
      by (simp add: getOrders_user(1) [OF assms])
    from order_findMany_subset [OF this]
    show "fst row \<in> set (orders s) \<and> o_userId (fst row) = jwt_id user \<and>
            inRange (q_minPrice q, q_maxPrice q) (o_totalPrice (fst row))"
      by (simp add: buildOrderWhere_user)
  qed
  have tot: "m_total (getOrders user q s) = int (length (filter ?sel (orders s)))"
    by (simp add: getOrders_user(2) [OF assms] order_count_def buildOrderWhere_user_fun)
  have all: "m_total (getOrders user (q\<lparr>q_minPrice := None, q_maxPrice := None\<rparr>) s) =
               int (length (filter ?own (orders s)))"
    by (simp add: getOrders_user(2) [OF assms] order_count_def buildOrderWhere_user_fun inRange_def)
  have "filter ?sel (orders s) = filter (\<lambda>ord. inRange (q_minPrice q, q_maxPrice q) (o_totalPrice ord))
          (filter ?own (orders s))"
    by (simp add: conj_commute)
  then have "length (filter ?sel (orders s)) \<le> length (filter ?own (orders s))"
    by (simp only: length_filter_le)
  with rows tot all show ?thesis by simp
qed

theorem getOrders_own_orders_witness:
  "jwt_role exSender \<noteq> ADMIN \<and>
   getOrders exSender exQuery exOrders =
     \<lparr>m_limit = 30, m_page = 1, m_total = 1,
       m_data = [(\<lparr>o_id = 3, o_userId = 1, o_totalPrice = 900, o_createdAt = 5\<rparr>, [])]\<rparr> \<and>
   m_total (getOrders exSender (exQuery\<lparr>q_minPrice := None, q_maxPrice := None\<rparr>) exOrders) = 2 \<and>
   map o_userId (orders exOrders) = [1, 2, 1] \<and>
   jwt_id exSender = 1"
proof -
  have r: "jwt_role exSender \<noteq> ADMIN" by (simp add: exSender_def)
  have e: "getOrders exSender exQuery exOrders =
     \<lparr>m_limit = 30, m_page = 1, m_total = 1,
       m_data = [(\<lparr>o_id = 3, o_userId = 1, o_totalPrice = 900, o_createdAt = 5\<rparr>, [])]\<rparr>"
    by (simp add: getOrders_def Let_def paginationResponse_def stringToNumUndefined_def
        paginationSchema_def buildOrderOrderBy_def buildOrderWhere_def order_findMany_def
        order_count_def inRange_def exSender_def exQuery_def exOrders_def)
  from getOrders_own_orders [OF r, of exQuery exOrders] r e show ?thesis
    by (simp add: exOrders_def exSender_def exQuery_def inRange_def)
qed

end
